theory Spec2Isabelle
  imports Main
begin

section \<open>JavaScript strings\<close>

text \<open>
  A JavaScript string is modelled as a \<^typ>\<open>string\<close>: one \<^typ>\<open>char\<close> per code
  unit. A \<^typ>\<open>char\<close> has 256 values, and they stand for the 256 code units that
  \<open>code_unit\<close> gives: U+0000 to U+007F (ASCII), U+0083 to U+00FF (Latin-1), and the three
  code units U+039C, U+03BC and U+0178 in the place of the control codes U+0080 to
  U+0082. The three are the upper-case forms of the micro sign and of y with diaeresis
  and the lower-case form of the first of them, so that the set is closed under
  \<^verbatim>\<open>toUpperCase\<close> and \<^verbatim>\<open>toLowerCase\<close>. On strings of these code units the functions
  of this section do what JavaScript does; a string with another code unit is outside
  the model.
\<close>

definition CAPITAL_MU :: char where
  "CAPITAL_MU = CHR 0x80"

definition small_mu :: char where
  "small_mu = CHR 0x81"

definition CAPITAL_Y_DIAERESIS :: char where
  "CAPITAL_Y_DIAERESIS = CHR 0x82"

definition micro_sign :: char where
  "micro_sign = CHR 0xB5"

definition sharp_s :: char where
  "sharp_s = CHR 0xDF"

definition small_y_diaeresis :: char where
  "small_y_diaeresis = CHR 0xFF"

definition code_unit :: "char \<Rightarrow> nat" where
  "code_unit c =
     (if c = CAPITAL_MU then 0x39C
      else if c = small_mu then 0x3BC
      else if c = CAPITAL_Y_DIAERESIS then 0x178
      else of_char c)"

definition lower_letters :: string where
  "lower_letters = ''abcdefghijklmnopqrstuvwxyz''"

definition upper_letters :: string where
  "upper_letters = ''ABCDEFGHIJKLMNOPQRSTUVWXYZ''"

text \<open>
  The letters of Latin-1, U+00E0 to U+00FE without the division sign and U+00C0 to
  U+00DE without the multiplication sign, in the same order.
\<close>

definition latin_lower :: string where
  "latin_lower =
     [CHR 0xE0, CHR 0xE1, CHR 0xE2, CHR 0xE3, CHR 0xE4, CHR 0xE5, CHR 0xE6, CHR 0xE7,
      CHR 0xE8, CHR 0xE9, CHR 0xEA, CHR 0xEB, CHR 0xEC, CHR 0xED, CHR 0xEE, CHR 0xEF,
      CHR 0xF0, CHR 0xF1, CHR 0xF2, CHR 0xF3, CHR 0xF4, CHR 0xF5, CHR 0xF6, CHR 0xF8,
      CHR 0xF9, CHR 0xFA, CHR 0xFB, CHR 0xFC, CHR 0xFD, CHR 0xFE]"

definition latin_upper :: string where
  "latin_upper =
     [CHR 0xC0, CHR 0xC1, CHR 0xC2, CHR 0xC3, CHR 0xC4, CHR 0xC5, CHR 0xC6, CHR 0xC7,
      CHR 0xC8, CHR 0xC9, CHR 0xCA, CHR 0xCB, CHR 0xCC, CHR 0xCD, CHR 0xCE, CHR 0xCF,
      CHR 0xD0, CHR 0xD1, CHR 0xD2, CHR 0xD3, CHR 0xD4, CHR 0xD5, CHR 0xD6, CHR 0xD8,
      CHR 0xD9, CHR 0xDA, CHR 0xDB, CHR 0xDC, CHR 0xDD, CHR 0xDE]"

text \<open>
  The upper-case form of an ASCII letter. It is also the case folding of a regular
  expression with the flag \<^verbatim>\<open>i\<close> whose letters are ASCII: such a letter matches no
  code unit beyond ASCII.
\<close>

definition ascii_upper :: "char \<Rightarrow> char" where
  "ascii_upper c = (case map_of (zip lower_letters upper_letters) c of Some u \<Rightarrow> u | None \<Rightarrow> c)"

text \<open>
  The upper-case forms of the code units beyond ASCII that have one: the letters of
  Latin-1, the micro sign and the small mu (both give the capital mu), y with diaeresis,
  and the sharp s, which gives two code units.
\<close>

definition special_upper :: "(char \<times> string) list" where
  "special_upper =
     zip (latin_lower @ [micro_sign, small_mu, small_y_diaeresis])
         (map (\<lambda>u. [u]) (latin_upper @ [CAPITAL_MU, CAPITAL_MU, CAPITAL_Y_DIAERESIS])) @
     [(sharp_s, ''SS'')]"

definition upper_units :: "char \<Rightarrow> string" where
  "upper_units c = (case map_of special_upper c of Some u \<Rightarrow> u | None \<Rightarrow> [ascii_upper c])"

text \<open>\<^verbatim>\<open>s.toUpperCase()\<close>\<close>

definition toUpperCase :: "string \<Rightarrow> string" where
  "toUpperCase s = concat (map upper_units s)"

definition toLowerChar :: "char \<Rightarrow> char" where
  "toLowerChar c =
     (case map_of (zip (upper_letters @ latin_upper @ [CAPITAL_MU, CAPITAL_Y_DIAERESIS])
                       (lower_letters @ latin_lower @ [small_mu, small_y_diaeresis])) c of
        Some l \<Rightarrow> l
      | None \<Rightarrow> c)"

text \<open>\<^verbatim>\<open>s.toLowerCase()\<close>\<close>

definition toLowerCase :: "string \<Rightarrow> string" where
  "toLowerCase s = map toLowerChar s"

text \<open>
  The class \<^verbatim>\<open>\s\<close> of regular expressions, which is also what \<^verbatim>\<open>trim()\<close> removes:
  TAB, LF, VT, FF, CR, the space and the no-break space U+00A0. The other members of the
  class are code units above U+00FF.
\<close>

definition is_ws :: "char \<Rightarrow> bool" where
  "is_ws c =
     (c \<in> set [CHR '' '', CHR 0x09, CHR 0x0A, CHR 0x0B, CHR 0x0C, CHR 0x0D, CHR 0xA0])"

text \<open>\<^verbatim>\<open>s.trim()\<close>\<close>

definition trim :: "string \<Rightarrow> string" where
  "trim s = rev (dropWhile is_ws (rev (dropWhile is_ws s)))"

text \<open>
  \<^verbatim>\<open>s.split(d)\<close> for a one-character separator: the result is never empty, and
  the empty string gives one empty piece.
\<close>

fun split_on :: "char \<Rightarrow> string \<Rightarrow> string list" where
  "split_on d [] = [[]]"
| "split_on d (x # xs) =
     (if x = d then [] # split_on d xs
      else (case split_on d xs of
              [] \<Rightarrow> [[x]]
            | w # ws \<Rightarrow> (x # w) # ws))"

text \<open>
  \<^verbatim>\<open>s.split(/\s+/)\<close>: the flag says that the previous character belonged to a
  separator, so that a run of white space separates once. White space at either end of
  the string gives an empty piece there, as in JavaScript.
\<close>

fun split_ws_from :: "bool \<Rightarrow> string \<Rightarrow> string list" where
  "split_ws_from b [] = [[]]"
| "split_ws_from b (x # xs) =
     (if is_ws x then (if b then split_ws_from True xs else [] # split_ws_from True xs)
      else (case split_ws_from False xs of
              [] \<Rightarrow> [[x]]
            | w # ws \<Rightarrow> (x # w) # ws))"

definition split_ws :: "string \<Rightarrow> string list" where
  "split_ws s = split_ws_from False s"

text \<open>\<^verbatim>\<open>parts.join(d)\<close>\<close>

fun join :: "string \<Rightarrow> string list \<Rightarrow> string" where
  "join d [] = []"
| "join d [x] = x"
| "join d (x # y # ys) = x @ d @ join d (y # ys)"

text \<open>\<^verbatim>\<open>parts.shift()\<close> on a list that \<^verbatim>\<open>split\<close> returned, which has a first piece.\<close>

definition shift :: "string list \<Rightarrow> string \<times> string list" where
  "shift parts = (case parts of [] \<Rightarrow> ([], []) | p # ps \<Rightarrow> (p, ps))"

definition digit_chars :: string where
  "digit_chars = ''0123456789''"

definition is_digit :: "char \<Rightarrow> bool" where
  "is_digit c = (c \<in> set digit_chars)"

text \<open>The decimal digits of a response code, as string concatenation writes a number.\<close>

fun string_of_nat :: "nat \<Rightarrow> string" where
  "string_of_nat n =
     (if n < 10 then [digit_chars ! n]
      else string_of_nat (n div 10) @ [digit_chars ! (n mod 10)])"

declare string_of_nat.simps [simp del]

definition CRLF :: string where
  "CRLF = [CHR 0x0D, CHR 0x0A]"

section \<open>Data model\<close>

text \<open>
  A value that the code holds as \<^verbatim>\<open>false\<close>, \<^verbatim>\<open>undefined\<close> or \<^verbatim>\<open>null\<close> until it is
  set is an option. \<open>truthy\<close> is JavaScript's test of such a string value: the empty
  string counts as absent.
\<close>

definition truthy :: "string option \<Rightarrow> bool" where
  "truthy v = (case v of None \<Rightarrow> False | Some s \<Rightarrow> s \<noteq> [])"

text \<open>The value of a parameter of MAIL or RCPT: a string, or \<^verbatim>\<open>true\<close>.\<close>

datatype arg_value = ArgStr string | ArgTrue

record address_record =
  address :: string
  args :: "(string \<rightharpoonup> arg_value) option"

record envelope =
  mailFrom :: "address_record option"
  rcptTo :: "address_record list"

record user_record =
  username :: string

record session =
  s_id :: string
  s_remoteAddress :: "string option"
  s_clientHostname :: "string option"
  s_hostNameAppearsAs :: "string option"
  s_envelope :: envelope
  s_user :: "user_record option"
  s_transaction :: nat

text \<open>
  The transport, as far as the connection uses it: the two flags it reads, and what it
  wrote. \<^verbatim>\<open>end()\<close> is Node's: it ends the writable side.
\<close>

record socket =
  writable :: bool
  destroyed :: bool
  ended :: bool
  written :: "string list"

definition socket_write :: "string \<Rightarrow> socket \<Rightarrow> socket" where
  "socket_write payload s = s\<lparr>written := written s @ [payload]\<rparr>"

definition socket_end :: "socket \<Rightarrow> socket" where
  "socket_end s = s\<lparr>ended := True, writable := False\<rparr>"

datatype parser_mode = COMMAND_MODE | DATA_MODE

record parser =
  mode :: parser_mode
  paused :: bool
  dataBytes :: nat
  maxBytes :: "nat option"

record data_stream =
  readable :: bool
  listeners :: nat

text \<open>
  An error that a collaborator passes to its callback: \<^verbatim>\<open>err.responseCode\<close> may be
  missing.
\<close>

record smtp_error =
  responseCode :: "nat option"
  message :: string

text \<open>The options of the server that the connection reads.\<close>

record server_options =
  opt_name :: string
  banner :: "string option"
  opt_size :: "nat option"
  authMethods :: "string list"
  disabledCommands :: "string list"
  hideSTARTTLS :: bool
  useXClient :: bool
  useProxy :: bool
  opt_secure :: bool

text \<open>
  The connection. \<open>nextHandler\<close> holds the name of a queued continuation (the code
  holds the function); \<open>xclient\<close> is the \<^verbatim>\<open>Map\<close>, in insertion order;
  \<open>registered\<close> says that the connection is in \<^verbatim>\<open>server.connections\<close>.
\<close>

record connection =
  conn_id :: string
  socket :: socket
  session :: "session option"
  transactionCounter :: nat
  ready :: bool
  upgrading :: bool
  nextHandler :: "string option"
  parser :: "parser option"
  dataStream :: "data_stream option"
  secure :: bool
  remoteAddress :: "string option"
  unauthenticatedCommands :: nat
  unrecognizedCommands :: nat
  name :: string
  clientHostname :: "string option"
  hostNameAppearsAs :: "string option"
  xclient :: "(string \<times> string option) list"
  closing :: bool
  closed :: bool
  registered :: bool

text \<open>
  The constructor. The random tag and the address of the peer come from outside;
  \<open>hostname\<close> is \<^verbatim>\<open>os.hostname()\<close>. The socket is taken as open.
\<close>

definition SMTPConnection :: "server_options \<Rightarrow> string \<Rightarrow> string \<Rightarrow> string option \<Rightarrow> connection" where
  "SMTPConnection opts hostname tag peer =
     \<lparr>conn_id = tag,
      socket = \<lparr>writable = True, destroyed = False, ended = False, written = []\<rparr>,
      session = None,
      transactionCounter = 0,
      ready = False,
      upgrading = False,
      nextHandler = None,
      parser = Some \<lparr>mode = COMMAND_MODE, paused = False, dataBytes = 0, maxBytes = None\<rparr>,
      dataStream = None,
      secure = opt_secure opts,
      remoteAddress = peer,
      unauthenticatedCommands = 0,
      unrecognizedCommands = 0,
      name = (if opt_name opts = [] then hostname else opt_name opts),
      clientHostname = None,
      hostNameAppearsAs = None,
      xclient = [],
      closing = False,
      closed = False,
      registered = True\<rparr>"

section \<open>Sending and closing\<close>

text \<open>
  \<^verbatim>\<open>send(code, data)\<close> with a string: a code of 0 and an empty text are left out of
  the line, and nothing is written to a socket that is not writable.
\<close>

definition payload_of :: "nat \<Rightarrow> string \<Rightarrow> string" where
  "payload_of code data =
     join '' '' ((if code = 0 then [] else [string_of_nat code]) @ (if data = [] then [] else [data]))"

definition send :: "nat \<Rightarrow> string \<Rightarrow> connection \<Rightarrow> connection" where
  "send code data c =
     (if writable (socket c)
      then c\<lparr>socket := socket_write (payload_of code data @ CRLF) (socket c)\<rparr>
      else c)"

definition close :: "connection \<Rightarrow> connection" where
  "close c =
     (let c1 = (if \<not> destroyed (socket c) \<and> writable (socket c)
                then c\<lparr>socket := socket_end (socket c)\<rparr> else c)
      in c1\<lparr>registered := False, closing := True\<rparr>)"

section \<open>Sessions\<close>

definition session_user :: "connection \<Rightarrow> user_record option" where
  "session_user c = (case session c of None \<Rightarrow> None | Some s \<Rightarrow> s_user s)"

definition startSession :: "connection \<Rightarrow> connection" where
  "startSession c =
     c\<lparr>session := Some \<lparr>
        s_id = conn_id c,
        s_remoteAddress = remoteAddress c,
        s_clientHostname = clientHostname c,
        s_hostNameAppearsAs = hostNameAppearsAs c,
        s_envelope = \<lparr>mailFrom = None, rcptTo = []\<rparr>,
        s_user = session_user c,
        s_transaction = transactionCounter c + 1\<rparr>\<rparr>"

section \<open>The dispatcher\<close>

definition handler_names :: "string list" where
  "handler_names =
     [''EHLO'', ''HELO'', ''QUIT'', ''NOOP'', ''RSET'', ''HELP'', ''VRFY'', ''XCLIENT'',
      ''STARTTLS'', ''AUTH'', ''MAIL'', ''RCPT'', ''DATA'', ''WIZ'', ''SHELL'', ''KILL'']"

text \<open>\<^verbatim>\<open>typeof this['handler_' + command] === 'function'\<close>\<close>

definition has_handler :: "string \<Rightarrow> bool" where
  "has_handler command = (command \<in> set handler_names)"

definition isSupported :: "server_options \<Rightarrow> string \<Rightarrow> bool" where
  "isSupported opts command =
     (let command' = toUpperCase (trim command)
      in command' \<notin> set (disabledCommands opts) \<and> has_handler command')"

text \<open>
  The test of a line against
  \<^verbatim>\<open>/^(OPTIONS|GET|HEAD|POST|PUT|DELETE|TRACE|CONNECT) \/.* HTTP\/\d\.\d$/i\<close>:
  the line starts with one of the verbs and \<^verbatim>\<open>" /"\<close>, ends with \<^verbatim>\<open>" HTTP/d.d"\<close>
  after them, and has no line terminator between the two. The letters are compared
  after \<open>ascii_upper\<close>, and the line terminators among the code units of the model
  are LF and CR.
\<close>

definition http_verbs :: "string list" where
  "http_verbs = [''OPTIONS'', ''GET'', ''HEAD'', ''POST'', ''PUT'', ''DELETE'', ''TRACE'', ''CONNECT'']"

definition is_line_terminator :: "char \<Rightarrow> bool" where
  "is_line_terminator c = (c = CHR 0x0A \<or> c = CHR 0x0D)"

definition http_tail :: "string \<Rightarrow> bool" where
  "http_tail t =
     (length t = 9 \<and> map ascii_upper (take 6 t) = '' HTTP/'' \<and> is_digit (t ! 6) \<and>
      t ! 7 = CHR ''.'' \<and> is_digit (t ! 8))"

definition http_with_verb :: "string \<Rightarrow> string \<Rightarrow> bool" where
  "http_with_verb v line =
     (let n = length v + 2
      in n + 9 \<le> length line \<and>
         map ascii_upper (take n line) = v @ '' /'' \<and>
         http_tail (drop (length line - 9) line) \<and>
         \<not> list_ex is_line_terminator (take (length line - 9 - n) (drop n line)))"

definition is_http_request :: "string \<Rightarrow> bool" where
  "is_http_request line = list_ex (\<lambda>v. http_with_verb v line) http_verbs"

text \<open>
  How \<^verbatim>\<open>_onCommand\<close> leaves a line: it returned without calling the callback
  (\<open>Returned\<close>, after a close), it called the callback (\<open>Consumed\<close>) or scheduled it
  with \<^verbatim>\<open>setImmediate\<close> (\<open>Deferred\<close>), it handed the callback to
  \<^verbatim>\<open>connectionReady\<close>, or it called a handler: the one queued in \<open>nextHandler\<close>
  or the handler of a verb.
\<close>

datatype dispatch =
    Returned
  | Consumed
  | Deferred
  | ConnectionReady
  | InvokeNext string
  | Invoke string

text \<open>The first piece of the line split at single spaces, in upper case.\<close>

definition command_name :: "string \<Rightarrow> string" where
  "command_name command = toUpperCase (fst (shift (split_on (CHR '' '') command)))"

text \<open>\<^verbatim>\<open>verbs.indexOf(commandName) >= 0\<close>, which is false of an undefined name.\<close>

definition verb_in :: "string option \<Rightarrow> string list \<Rightarrow> bool" where
  "verb_in commandName verbs = (case commandName of None \<Rightarrow> False | Some v \<Rightarrow> v \<in> set verbs)"

text \<open>
  The checks of \<^verbatim>\<open>_onCommand\<close> once a handler is found, in the order of the code: the
  counter of commands sent without authentication, the HELO/EHLO gate, the
  authentication gate, the call. \<open>commandName\<close> is \<open>None\<close> when the handler came from
  \<open>nextHandler\<close>: the code leaves the variable undefined then.
\<close>

definition helo_auth_gates ::
  "server_options \<Rightarrow> connection \<Rightarrow> string option \<Rightarrow> dispatch \<Rightarrow> connection \<times> dispatch" where
  "helo_auth_gates opts c commandName handler =
     (if \<not> truthy (hostNameAppearsAs c) \<and> truthy commandName \<and>
         verb_in commandName [''MAIL'', ''RCPT'', ''DATA'', ''AUTH'']
      then (send 503 ''Error: send HELO/EHLO first'' c, Deferred)
      else if session_user c = None \<and> isSupported opts ''AUTH'' \<and>
              verb_in commandName [''MAIL'', ''RCPT'', ''DATA'']
      then (send 530 ''Error: authentication Required'' c, Deferred)
      else (c, handler))"

definition unauthenticated_gate ::
  "server_options \<Rightarrow> connection \<Rightarrow> string option \<Rightarrow> dispatch \<Rightarrow> connection \<times> dispatch" where
  "unauthenticated_gate opts c commandName handler =
     (if session_user c = None \<and> isSupported opts ''AUTH'' \<and> commandName \<noteq> Some ''AUTH''
      then (let c1 = c\<lparr>unauthenticatedCommands := unauthenticatedCommands c + 1\<rparr>
            in if unauthenticatedCommands c1 \<ge> 10
               then (close (send 554 ''Error: too many unauthenticated commands'' c1), Returned)
               else helo_auth_gates opts c1 commandName handler)
      else helo_auth_gates opts c commandName handler)"

definition unrecognized :: "connection \<Rightarrow> connection \<times> dispatch" where
  "unrecognized c =
     (let c1 = c\<lparr>unrecognizedCommands := unrecognizedCommands c + 1\<rparr>
      in if unrecognizedCommands c1 \<ge> 10
         then (close (send 554 ''Error: too many unrecognized commands'' c1), Returned)
         else (send 500 ''Error: command not recognized'' c1, Deferred))"

text \<open>What the branch below the limit does to the connection.\<close>

definition count_unrecognized :: "connection \<Rightarrow> connection" where
  "count_unrecognized c =
     send 500 ''Error: command not recognized'' (c\<lparr>unrecognizedCommands := unrecognizedCommands c + 1\<rparr>)"

text \<open>
  The first line of a connection behind a proxy: \<^verbatim>\<open>params\<close> is the line split at
  single spaces, without its first piece.
\<close>

definition proxy_header :: "connection \<Rightarrow> string \<Rightarrow> connection \<times> dispatch" where
  "proxy_header c command =
     (let (first, params) = shift (split_on (CHR '' '') command)
      in if toUpperCase first \<noteq> ''PROXY''
         then (close (send 500 ''Invalid PROXY header'' c), Returned)
         else ((if 1 < length params \<and> params ! 1 \<noteq> []
                then c\<lparr>remoteAddress := Some (toLowerCase (trim (params ! 1)))\<rparr>
                else c), ConnectionReady))"

definition onCommand :: "server_options \<Rightarrow> connection \<Rightarrow> string \<Rightarrow> connection \<times> dispatch" where
  "onCommand opts c command =
     (if \<not> ready c then
        (if useProxy opts then proxy_header c command
         else (close (send 421 (name c @ '' You talk too soon'') c), Returned))
      else if is_http_request command
      then (close (send 554 ''HTTP requests not allowed'' c), Returned)
      else if upgrading c then (c, Consumed)
      else (case nextHandler c of
              Some h \<Rightarrow> unauthenticated_gate opts (c\<lparr>nextHandler := None\<rparr>) None (InvokeNext h)
            | None \<Rightarrow>
                (let commandName = command_name command
                 in if isSupported opts commandName \<and> has_handler commandName
                    then unauthenticated_gate opts c (Some commandName) (Invoke commandName)
                    else unrecognized c)))"

text \<open>
  Modelled from the spec: the line parser (\<^verbatim>\<open>smtp-stream\<close>), which in COMMAND mode
  hands one line at a time to the dispatcher and holds the next line back until the
  callback of the previous one is called. \<open>run\<close> stands for the handlers: it gives the
  connection after the handler of a line and says whether the callback was called.
\<close>

fun feed ::
  "(dispatch \<Rightarrow> connection \<Rightarrow> string \<Rightarrow> connection \<times> bool) \<Rightarrow> server_options \<Rightarrow>
   connection \<Rightarrow> string list \<Rightarrow> connection" where
  "feed run opts c [] = c"
| "feed run opts c (l # ls) =
     (case onCommand opts c l of
        (c1, Returned) \<Rightarrow> c1
      | (c1, Consumed) \<Rightarrow> feed run opts c1 ls
      | (c1, Deferred) \<Rightarrow> feed run opts c1 ls
      | (c1, d) \<Rightarrow> (case run d c1 l of
                      (c2, True) \<Rightarrow> feed run opts c2 ls
                    | (c2, False) \<Rightarrow> c2))"

section \<open>Handlers and the callbacks of the collaborators\<close>

text \<open>
  A handler either finishes and calls the callback of the line (\<open>Done\<close>), returns
  without calling it (\<open>NoCallback\<close>), fails with a \<^verbatim>\<open>TypeError\<close> on a value that is
  not there (\<open>Thrown\<close>), waits for the end of the data stream (\<open>Pending\<close>), or calls a
  collaborator and goes on in the callback it passes to it.
\<close>

datatype handler_result =
    Done
  | NoCallback
  | Thrown
  | Pending
  | Ask_onConnect
  | Ask_onMailFrom address_record
  | Ask_onRcptTo address_record
  | Ask_onData
  | Ask_sasl string "string list"

text \<open>\<^verbatim>\<open>err.responseCode || dflt\<close>\<close>

definition response_code :: "smtp_error \<Rightarrow> nat \<Rightarrow> nat" where
  "response_code err dflt =
     (case responseCode err of None \<Rightarrow> dflt | Some n \<Rightarrow> if n = 0 then dflt else n)"

text \<open>A value in string concatenation: an undefined one reads \<^verbatim>\<open>undefined\<close>.\<close>

definition to_str :: "string option \<Rightarrow> string" where
  "to_str v = (case v of None \<Rightarrow> ''undefined'' | Some s \<Rightarrow> s)"

definition greeting :: "server_options \<Rightarrow> connection \<Rightarrow> string" where
  "greeting opts c =
     name c @ '' ESMTP'' @ (if truthy (banner opts) then '' '' @ to_str (banner opts) else [])"

subsection \<open>connectionReady\<close>

text \<open>
  \<open>hostnames\<close> is what the reverse lookup passes to \<^verbatim>\<open>reverseCb\<close>; \<open>has_next\<close> says that
  \<^verbatim>\<open>next\<close> is a function.
\<close>

definition connectionReady :: "connection \<Rightarrow> string list option \<Rightarrow> connection \<times> handler_result" where
  "connectionReady c hostnames =
     (if closing c \<or> closed c then (c, NoCallback)
      else
        (let first = (case hostnames of None \<Rightarrow> None | Some [] \<Rightarrow> None | Some (h # hs) \<Rightarrow> Some h);
             c1 = c\<lparr>clientHostname :=
                     Some (if truthy first then to_str first
                           else ''['' @ to_str (remoteAddress c) @ '']'')\<rparr>
         in (startSession c1, Ask_onConnect)))"

definition onConnect_callback ::
  "server_options \<Rightarrow> connection \<Rightarrow> smtp_error option \<Rightarrow> bool \<Rightarrow> connection \<times> handler_result" where
  "onConnect_callback opts c err has_next =
     (let c1 = (case err of
                  Some e \<Rightarrow> close (send (response_code e 554) (message e) c)
                | None \<Rightarrow> c);
          c2 = c1\<lparr>ready := True\<rparr>;
          c3 = send 220 (greeting opts c2) c2
      in (c3, if has_next then Done else NoCallback))"

subsection \<open>The parser of MAIL FROM and RCPT TO\<close>

text \<open>\<^verbatim>\<open>/^<[^<>]*>$/.test(address)\<close>\<close>

definition angle_address :: "string \<Rightarrow> bool" where
  "angle_address a =
     (2 \<le> length a \<and> hd a = CHR ''<'' \<and> last a = CHR ''>'' \<and>
      list_all (\<lambda>ch. ch \<noteq> CHR ''<'' \<and> ch \<noteq> CHR ''>'') (butlast (tl a)))"

text \<open>The body of the loop over the parameters: the key and the value of one of them.\<close>

definition parse_param :: "string \<Rightarrow> string \<times> arg_value" where
  "parse_param part =
     (let (key, rest) = shift (split_on (CHR ''='') part);
          v = join ''='' rest
      in (toUpperCase key, if v = [] then ArgTrue else ArgStr v))"

definition parse_args :: "string list \<Rightarrow> (string \<rightharpoonup> arg_value) option" where
  "parse_args parts =
     fold (\<lambda>part args.
             (let (key, v) = parse_param part
              in Some ((case args of None \<Rightarrow> Map.empty | Some m \<Rightarrow> m)(key \<mapsto> v))))
          parts None"

text \<open>
  \<open>toUnicode\<close> is \<^verbatim>\<open>punycode.toUnicode\<close>, a library function. The result is \<open>None\<close>
  where the code returns \<^verbatim>\<open>false\<close>.
\<close>

definition parseAddressCommand ::
  "(string \<Rightarrow> string) \<Rightarrow> string \<Rightarrow> string \<Rightarrow> address_record option" where
  "parseAddressCommand toUnicode name0 command0 =
     (let name1 = toUpperCase (trim name0);
          (first, parts0) = shift (split_on (CHR '':'') command0);
          command1 = toUpperCase (trim first);
          (address0, parts) = shift (split_ws (trim (join '':'' parts0)))
      in if name1 \<noteq> command1 then None
         else
           (let invalid = \<not> angle_address address0;
                address1 = (if invalid then address0 else butlast (tl address0));
                args1 = parse_args parts
            in if address1 \<noteq> []
               then (case split_on (CHR ''@'') address1 of
                       [local, domain] \<Rightarrow>
                         (if local = [] \<or> domain = [] \<or> invalid then None
                          else Some \<lparr>address = local @ ''@'' @ toUnicode domain, args = args1\<rparr>)
                     | _ \<Rightarrow> None)
               else if invalid then None
               else Some \<lparr>address = address1, args = args1\<rparr>))"

subsection \<open>MAIL\<close>

text \<open>\<^verbatim>\<open>parsed.args.SIZE\<close>, undefined when there are no parameters.\<close>

definition arg_lookup :: "address_record \<Rightarrow> string \<Rightarrow> arg_value option" where
  "arg_lookup parsed key = (case args parsed of None \<Rightarrow> None | Some m \<Rightarrow> m key)"

definition arg_truthy :: "arg_value option \<Rightarrow> bool" where
  "arg_truthy v = (case v of None \<Rightarrow> False | Some ArgTrue \<Rightarrow> True | Some (ArgStr s) \<Rightarrow> s \<noteq> [])"

text \<open>
  \<^verbatim>\<open>options.size && parsed.args.SIZE && Number(parsed.args.SIZE) > options.size\<close>.
  \<open>number_gt v n\<close> stands for \<^verbatim>\<open>Number(v) > n\<close>, a conversion to a floating point
  number that is left to the caller.
\<close>

definition size_exceeded ::
  "(arg_value \<Rightarrow> nat \<Rightarrow> bool) \<Rightarrow> server_options \<Rightarrow> address_record \<Rightarrow> bool" where
  "size_exceeded number_gt opts parsed =
     (case (opt_size opts, arg_lookup parsed ''SIZE'') of
        (Some n, Some v) \<Rightarrow> n \<noteq> 0 \<and> arg_truthy (Some v) \<and> number_gt v n
      | _ \<Rightarrow> False)"

definition handler_MAIL ::
  "(string \<Rightarrow> string) \<Rightarrow> (arg_value \<Rightarrow> nat \<Rightarrow> bool) \<Rightarrow> server_options \<Rightarrow> connection \<Rightarrow> string \<Rightarrow>
   connection \<times> handler_result" where
  "handler_MAIL toUnicode number_gt opts c command =
     (case parseAddressCommand toUnicode ''mail from'' command of
        None \<Rightarrow> (send 501 ''Error: Bad sender address syntax'' c, Done)
      | Some parsed \<Rightarrow>
          (case session c of
             None \<Rightarrow> (c, Thrown)
           | Some s \<Rightarrow>
               (if mailFrom (s_envelope s) \<noteq> None
                then (send 503 ''Error: nested MAIL command'' c, Done)
                else if size_exceeded number_gt opts parsed
                then (send 552 (''Error: message exceeds fixed maximum message size '' @
                                string_of_nat (case opt_size opts of None \<Rightarrow> 0 | Some n \<Rightarrow> n)) c,
                      Done)
                else (c, Ask_onMailFrom parsed))))"

definition onMailFrom_callback ::
  "connection \<Rightarrow> address_record \<Rightarrow> smtp_error option \<Rightarrow> connection \<times> handler_result" where
  "onMailFrom_callback c parsed err =
     (case err of
        Some e \<Rightarrow> (send (response_code e 550) (message e) c, Done)
      | None \<Rightarrow>
          (case session c of
             None \<Rightarrow> (c, Thrown)
           | Some s \<Rightarrow>
               (send 250 ''Accepted''
                  (c\<lparr>session := Some (s\<lparr>s_envelope := (s_envelope s)\<lparr>mailFrom := Some parsed\<rparr>\<rparr>)\<rparr>),
                Done)))"

subsection \<open>RCPT\<close>

definition handler_RCPT ::
  "(string \<Rightarrow> string) \<Rightarrow> connection \<Rightarrow> string \<Rightarrow> connection \<times> handler_result" where
  "handler_RCPT toUnicode c command =
     (case parseAddressCommand toUnicode ''rcpt to'' command of
        None \<Rightarrow> (send 501 ''Error: Bad recipient address syntax'' c, Done)
      | Some parsed \<Rightarrow>
          (if address parsed = []
           then (send 501 ''Error: Bad recipient address syntax'' c, Done)
           else
             (case session c of
                None \<Rightarrow> (c, Thrown)
              | Some s \<Rightarrow>
                  (if mailFrom (s_envelope s) = None
                   then (send 503 ''Error: need MAIL command'' c, Done)
                   else (c, Ask_onRcptTo parsed)))))"




subsection \<open>DATA\<close>

text \<open>
  Modelled from the spec: \<^verbatim>\<open>startDataMode(maxSize)\<close> of the line parser
  (\<^verbatim>\<open>smtp-stream\<close>, which is not among the sources). It puts the parser into DATA mode
  with the given limit and gives a readable sink.
\<close>

definition startDataMode :: "parser \<Rightarrow> nat option \<Rightarrow> parser \<times> data_stream" where
  "startDataMode p maxSize =
     (p\<lparr>mode := DATA_MODE, dataBytes := 0, maxBytes := maxSize\<rparr>,
      \<lparr>readable = True, listeners = 0\<rparr>)"

text \<open>
  Modelled from the spec: \<^verbatim>\<open>continue()\<close> of the line parser. After the terminator
  the parser stays paused until it is called; then COMMAND mode resumes.
\<close>

definition parser_continue :: "parser \<Rightarrow> parser" where
  "parser_continue p = p\<lparr>mode := COMMAND_MODE, paused := False\<rparr>"

definition handler_DATA ::
  "server_options \<Rightarrow> connection \<Rightarrow> string \<Rightarrow> connection \<times> handler_result" where
  "handler_DATA opts c command =
     (case session c of
        None \<Rightarrow> (c, Thrown)
      | Some s \<Rightarrow>
          (if rcptTo (s_envelope s) = []
           then (send 503 ''Error: need RCPT command'' c, Done)
           else
             (case parser c of
                None \<Rightarrow> (c, Thrown)
              | Some p \<Rightarrow>
                  (case startDataMode p (opt_size opts) of
                     (p1, stream) \<Rightarrow>
                       (send 354 ''End data with <CR><LF>.<CR><LF>''
                          (c\<lparr>parser := Some p1, dataStream := Some stream\<rparr>),
                        Ask_onData)))))"

text \<open>
  The function \<^verbatim>\<open>close\<close> inside \<^verbatim>\<open>handler_DATA\<close>, which ends the transaction.
  \<open>reply\<close> is the message of \<^verbatim>\<open>onData\<close>, when it is a string.
\<close>

definition data_close ::
  "connection \<Rightarrow> smtp_error option \<Rightarrow> string option \<Rightarrow> connection \<times> handler_result" where
  "data_close c err reply =
     (case dataStream c of
        None \<Rightarrow> (c, Thrown)
      | Some stream \<Rightarrow>
          (let c1 = c\<lparr>dataStream := Some (stream\<lparr>listeners := 0\<rparr>)\<rparr>;
               c2 = (case err of
                       Some e \<Rightarrow> send (response_code e 554) (message e) c1
                     | None \<Rightarrow>
                         send 250 (case reply of Some m \<Rightarrow> m | None \<Rightarrow> ''OK: message queued'') c1);
               c3 = c2\<lparr>transactionCounter := transactionCounter c2 + 1\<rparr>;
               c4 = c3\<lparr>unrecognizedCommands := 0\<rparr>;
               c5 = startSession c4
           in (case parser c5 of
                 None \<Rightarrow> (c5, Thrown)
               | Some p \<Rightarrow> (c5\<lparr>parser := Some (parser_continue p)\<rparr>, Done))))"

text \<open>
  The callback that \<^verbatim>\<open>onData\<close> gets: while the stream is readable it only registers
  \<^verbatim>\<open>close\<close> for the end of the stream.
\<close>

definition onData_callback ::
  "connection \<Rightarrow> smtp_error option \<Rightarrow> string option \<Rightarrow> connection \<times> handler_result" where
  "onData_callback c err reply =
     (case dataStream c of
        None \<Rightarrow> (c, Thrown)
      | Some stream \<Rightarrow>
          (if readable stream
           then (c\<lparr>dataStream := Some (stream\<lparr>listeners := listeners stream + 1\<rparr>)\<rparr>, Pending)
           else data_close c err reply))"

text \<open>The end of the stream, when \<^verbatim>\<open>close\<close> was registered for it.\<close>

definition dataStream_end ::
  "connection \<Rightarrow> smtp_error option \<Rightarrow> string option \<Rightarrow> connection \<times> handler_result" where
  "dataStream_end c err reply =
     (case dataStream c of
        None \<Rightarrow> (c, Thrown)
      | Some stream \<Rightarrow> data_close (c\<lparr>dataStream := Some (stream\<lparr>readable := False\<rparr>)\<rparr>) err reply)"

subsection \<open>AUTH\<close>

text \<open>
  \<open>sasl m\<close> says that the module \<^verbatim>\<open>sasl\<close> has a function \<^verbatim>\<open>SASL_m\<close>. The mechanism
  itself is a collaborator: the handler ends by calling it.
\<close>

text \<open>
  The first lines of the handler: the pieces of the line without the verb, the second
  piece in upper case as the name of the mechanism, and the pieces after it.
\<close>

definition auth_arguments :: "string \<Rightarrow> string \<times> string list" where
  "auth_arguments command =
     (let (verb, args1) = shift (split_ws (trim command));
          (m, args2) = shift args1
      in (toUpperCase m, args2))"

definition handler_AUTH ::
  "(string \<Rightarrow> bool) \<Rightarrow> server_options \<Rightarrow> connection \<Rightarrow> string \<Rightarrow> connection \<times> handler_result" where
  "handler_AUTH sasl opts c command =
     (let (method, args2) = auth_arguments command
      in if \<not> secure c \<and> isSupported opts ''STARTTLS'' \<and> \<not> hideSTARTTLS opts
         then (send 538 ''Error: Must issue a STARTTLS command first'' c, Done)
         else if session_user c \<noteq> None
         then (send 503 ''Error: No identity changes permitted'' c, Done)
         else if method \<notin> set (authMethods opts) \<or> \<not> sasl method
         then (send 504 ''Error: Unrecognized authentication type'' c, Done)
         else (c, Ask_sasl method args2))"

subsection \<open>XCLIENT\<close>

definition allowedKeys :: "string list" where
  "allowedKeys = [''NAME'', ''ADDR'', ''PORT'', ''PROTO'', ''HELO'', ''LOGIN'']"

text \<open>\<^verbatim>\<open>map.set(key, value)\<close>: a key that is there keeps its place.\<close>

fun map_set :: "string \<Rightarrow> 'v \<Rightarrow> (string \<times> 'v) list \<Rightarrow> (string \<times> 'v) list" where
  "map_set k v [] = [(k, v)]"
| "map_set k v (e # es) = (if fst e = k then (k, v) # es else e # map_set k v es)"

definition map_has :: "string \<Rightarrow> (string \<times> 'v) list \<Rightarrow> bool" where
  "map_has k m = (k \<in> set (map fst m))"

text \<open>
  The loop that reads the parameters into \<^verbatim>\<open>data\<close>; \<open>None\<close> where the code answers
  501. A value is \<open>None\<close> where the code sets it to \<^verbatim>\<open>false\<close>.
\<close>

fun xclient_parse ::
  "string list \<Rightarrow> (string \<times> string option) list \<Rightarrow> (string \<times> string option) list option" where
  "xclient_parse [] data = Some data"
| "xclient_parse (part # parts) data =
     (case shift (split_on (CHR ''='') part) of
        (key, [v]) \<Rightarrow>
          (if toUpperCase key \<notin> set allowedKeys then None
           else xclient_parse parts
                  (map_set (toUpperCase key)
                     (if toUpperCase v \<in> set [''[UNAVAILABLE]'', ''[TEMPUNAVAIL]'']
                      then None else Some v)
                     data))
      | _ \<Rightarrow> None)"

text \<open>
  The body of \<^verbatim>\<open>data.forEach\<close>. \<^verbatim>\<open>net.isIP\<close> is a function, so the test
  \<^verbatim>\<open>!net.isIP\<close> never holds.
\<close>

definition xclient_apply :: "string \<times> string option \<Rightarrow> connection \<Rightarrow> connection" where
  "xclient_apply entry c =
     (case entry of (key, v) \<Rightarrow>
        (if key = ''LOGIN'' then
           (let c1 = (if \<not> truthy v then c
                      else c\<lparr>session :=
                             (case session c of
                                None \<Rightarrow> None
                              | Some s \<Rightarrow> Some (s\<lparr>s_user := Some \<lparr>username = to_str v\<rparr>\<rparr>))\<rparr>)
            in c1\<lparr>xclient := map_set key v (xclient c1)\<rparr>)
         else if key = ''ADDR'' then
           (let c1 = (if truthy v
                      then c\<lparr>remoteAddress := Some (toLowerCase (to_str v)),
                             hostNameAppearsAs := None\<rparr>
                      else c)
            in c1\<lparr>xclient := map_set key v (xclient c1)\<rparr>)
         else if key = ''NAME'' then
           (let v1 = (if truthy v then to_str v else []);
                c1 = c\<lparr>clientHostname := Some (toLowerCase v1)\<rparr>
            in c1\<lparr>xclient := map_set key (Some v1) (xclient c1)\<rparr>)
         else c\<lparr>xclient := map_set key v (xclient c)\<rparr>))"

definition handler_XCLIENT ::
  "server_options \<Rightarrow> connection \<Rightarrow> string \<Rightarrow> connection \<times> handler_result" where
  "handler_XCLIENT opts c command =
     (if map_has ''ADDR'' (xclient c) \<or> \<not> useXClient opts
      then (send 550 ''Error: Not allowed'' c, Done)
      else
        (case session c of
           None \<Rightarrow> (c, Thrown)
         | Some s \<Rightarrow>
             (if mailFrom (s_envelope s) \<noteq> None
              then (send 503 ''Error: Mail transaction in progress'' c, Done)
              else
                (let (verb, parts) = shift (split_ws (trim command))
                 in if parts = []
                    then (send 501 ''Error: Bad command parameter syntax'' c, Done)
                    else
                      (case xclient_parse parts [] of
                         None \<Rightarrow> (send 501 ''Error: Bad command parameter syntax'' c, Done)
                       | Some data \<Rightarrow>
                           (let c1 = fold xclient_apply data c;
                                c2 = (if truthy (remoteAddress c1) \<and> \<not> truthy (clientHostname c1)
                                      then c1\<lparr>clientHostname :=
                                                Some (''['' @ to_str (remoteAddress c1) @ '']'')\<rparr>
                                      else c1)
                            in (send 220 (greeting opts c2) c2, Done)))))))"

section \<open>A connection to evaluate on\<close>

definition demo_options :: server_options where
  "demo_options =
     \<lparr>opt_name = ''mx.example'', banner = None, opt_size = None, authMethods = [''PLAIN''],
      disabledCommands = [], hideSTARTTLS = False, useXClient = True, useProxy = False,
      opt_secure = False\<rparr>"

definition demo_connection :: connection where
  "demo_connection =
     startSession ((SMTPConnection demo_options ''localhost'' ''c1'' (Some ''10.0.0.1''))\<lparr>ready := True\<rparr>)"

text \<open>
  The same connection in the middle of a transaction: a sender and a recipient are
  accepted, three commands were not recognised, and DATA has put the parser into DATA
  mode; the sink has ended.
\<close>

definition demo_in_data :: connection where
  "demo_in_data =
     demo_connection
       \<lparr>session := Some
           \<lparr>s_id = ''c1'', s_remoteAddress = Some ''10.0.0.1'', s_clientHostname = None,
            s_hostNameAppearsAs = None,
            s_envelope = \<lparr>mailFrom = Some \<lparr>address = ''s@x'', args = None\<rparr>,
                          rcptTo = [\<lparr>address = ''r@y'', args = None\<rparr>]\<rparr>,
            s_user = None, s_transaction = 1\<rparr>,
        parser := Some \<lparr>mode = DATA_MODE, paused = True, dataBytes = 7, maxBytes = None\<rparr>,
        dataStream := Some \<lparr>readable = False, listeners = 0\<rparr>,
        unrecognizedCommands := 3\<rparr>"

text \<open>The same connection with a sender and two recipients accepted.\<close>

definition demo_two_rcpts :: connection where
  "demo_two_rcpts =
     demo_connection
       \<lparr>session := Some
           \<lparr>s_id = ''c1'', s_remoteAddress = Some ''10.0.0.1'', s_clientHostname = None,
            s_hostNameAppearsAs = None,
            s_envelope = \<lparr>mailFrom = Some \<lparr>address = ''s@x'', args = None\<rparr>,
                          rcptTo = [\<lparr>address = ''A@x'', args = None\<rparr>,
                                    \<lparr>address = ''b@y'', args = None\<rparr>]\<rparr>,
            s_user = None, s_transaction = 1\<rparr>\<rparr>"


section \<open>Properties\<close>

lemmas char_defs = toUpperCase_def upper_units_def special_upper_def ascii_upper_def
  toLowerCase_def toLowerChar_def lower_letters_def upper_letters_def latin_lower_def
  latin_upper_def CAPITAL_MU_def small_mu_def CAPITAL_Y_DIAERESIS_def micro_sign_def
  sharp_s_def small_y_diaeresis_def is_ws_def

text \<open>
  The reading of the characters is one to one, and the functions at some code units
  beyond ASCII: the letters of Latin-1 change case, the multiplication and the division
  sign do not, the sharp s becomes SS, the micro sign becomes the capital mu U+039C, whose
  lower-case form is the small mu U+03BC, y with diaeresis becomes U+0178 and comes back,
  and the no-break space is white space.
\<close>

lemma code_unit_inj: "inj code_unit"
proof (rule injI)
  fix x y :: char
  assume eq: "code_unit x = code_unit y"
  have small: "\<not> 256 \<le> (of_char c :: nat)" for c :: char
  proof -
    have "(of_char c :: nat) = of_char c mod 256" by (simp only: of_char_mod_256)
    also have "\<dots> < 256" by simp
    finally show ?thesis by linarith
  qed
  have high: "code_unit c \<ge> 256 \<longleftrightarrow> c \<in> {CAPITAL_MU, small_mu, CAPITAL_Y_DIAERESIS}" for c
    using small[of c] by (simp add: code_unit_def)
  show "x = y"
  proof (cases "x \<in> {CAPITAL_MU, small_mu, CAPITAL_Y_DIAERESIS}")
    case True
    with high[of x] eq have "256 \<le> code_unit y" by simp
    with high[of y] have "y \<in> {CAPITAL_MU, small_mu, CAPITAL_Y_DIAERESIS}" by simp
    with True eq show ?thesis
      by (auto simp: code_unit_def CAPITAL_MU_def small_mu_def CAPITAL_Y_DIAERESIS_def)
  next
    case False
    with high[of x] eq have "\<not> 256 \<le> code_unit y" by simp
    with high[of y] have "y \<notin> {CAPITAL_MU, small_mu, CAPITAL_Y_DIAERESIS}" by simp
    with False eq show ?thesis by (simp add: code_unit_def)
  qed
qed

lemma case_maps_beyond_ascii:
  "toLowerCase [CHR 0xC9] = [CHR 0xE9]"
  "toUpperCase [CHR 0xE9] = [CHR 0xC9]"
  "toLowerCase [CHR 0xD7] = [CHR 0xD7]"
  "toUpperCase [CHR 0xF7] = [CHR 0xF7]"
  "toUpperCase [sharp_s] = ''SS''"
  "map code_unit (toUpperCase [micro_sign]) = [0x39C]"
  "map code_unit (toLowerCase (toUpperCase [micro_sign])) = [0x3BC]"
  "map code_unit (toUpperCase [small_y_diaeresis]) = [0x178]"
  "toLowerCase (toUpperCase [small_y_diaeresis]) = [small_y_diaeresis]"
  "is_ws (CHR 0xA0)"
  by (simp_all add: char_defs code_unit_def)

lemma ascii_upper_space: "ascii_upper c = CHR '' '' \<longleftrightarrow> c = CHR '' ''"
  by (simp add: ascii_upper_def lower_letters_def upper_letters_def)

lemma ascii_upper_other: "c \<notin> set lower_letters \<Longrightarrow> ascii_upper c = c"
proof -
  assume "c \<notin> set lower_letters"
  then have "map_of (zip lower_letters upper_letters) c = None"
    by (simp add: map_of_eq_None_iff lower_letters_def upper_letters_def)
  then show ?thesis by (simp add: ascii_upper_def)
qed

lemma special_key_high: "map_of special_upper c = Some u \<Longrightarrow> digit7 c"
  by (auto simp: special_upper_def latin_lower_def
        latin_upper_def CAPITAL_MU_def small_mu_def CAPITAL_Y_DIAERESIS_def micro_sign_def
        sharp_s_def small_y_diaeresis_def split: if_splits)

lemma ascii_letter_low: "c \<in> set (lower_letters @ upper_letters) \<Longrightarrow> \<not> digit7 c"
  by (auto simp: lower_letters_def upper_letters_def)

lemma ascii_letter_not_special:
  "c \<in> set (lower_letters @ upper_letters) \<Longrightarrow> map_of special_upper c = None"
  using special_key_high[of c] ascii_letter_low[of c]
  by (cases "map_of special_upper c") auto

lemma ascii_letter_upper_units:
  assumes "ascii_upper c \<in> set upper_letters"
  shows "upper_units c = [ascii_upper c]"
proof -
  have "c \<in> set (lower_letters @ upper_letters)"
  proof (cases "c \<in> set lower_letters")
    case True
    then show ?thesis by simp
  next
    case False
    with assms show ?thesis by (simp add: ascii_upper_other)
  qed
  then have "map_of special_upper c = None" by (rule ascii_letter_not_special)
  then show ?thesis by (simp add: upper_units_def)
qed

lemma toUpperCase_ascii_letters:
  "\<forall>c \<in> set p. ascii_upper c \<in> set upper_letters \<Longrightarrow> toUpperCase p = map ascii_upper p"
  by (induction p) (simp_all add: toUpperCase_def ascii_letter_upper_units)

lemma split_on_prefix: "d \<notin> set p \<Longrightarrow> split_on d (p @ d # rest) = p # split_on d rest"
  by (induction p) auto

lemma command_name_prefix:
  "CHR '' '' \<notin> set p \<Longrightarrow> command_name (p @ CHR '' '' # rest) = toUpperCase p"
  by (simp add: command_name_def split_on_prefix shift_def)

lemma http_verb_not_handler: "v \<in> set http_verbs \<Longrightarrow> \<not> has_handler v"
  by (auto simp: http_verbs_def has_handler_def handler_names_def)

lemma http_verb_no_space: "v \<in> set http_verbs \<Longrightarrow> CHR '' '' \<notin> set v"
  by (auto simp: http_verbs_def)

lemma http_verb_letters: "v \<in> set http_verbs \<Longrightarrow> set v \<subseteq> set upper_letters"
  by (auto simp: http_verbs_def upper_letters_def)

lemma http_command_name:
  assumes "http_with_verb v line" and "v \<in> set http_verbs"
  shows "command_name line = v"
proof -
  let ?n = "length v"
  from assms(1) have len: "?n + 2 + 9 \<le> length line"
    and up: "map ascii_upper (take (?n + 2) line) = v @ '' /''"
    by (simp_all add: http_with_verb_def Let_def)
  define p where "p = take ?n line"
  define rest where "rest = drop (Suc ?n) line"
  from len have lp: "length p = ?n" by (simp add: p_def)
  from up have "take ?n (map ascii_upper (take (?n + 2) line)) = v" by simp
  then have folded: "map ascii_upper p = v"
    by (simp add: take_map p_def min_def)
  then have "\<forall>c \<in> set p. ascii_upper c \<in> set v" by auto
  with http_verb_letters[OF assms(2)] have "\<forall>c \<in> set p. ascii_upper c \<in> set upper_letters"
    by blast
  then have "toUpperCase p = map ascii_upper p" by (rule toUpperCase_ascii_letters)
  with folded have upp: "toUpperCase p = v" by simp
  from up have "map ascii_upper (take (?n + 2) line) ! ?n = CHR '' ''"
    by (simp add: nth_append)
  with len have "ascii_upper (line ! ?n) = CHR '' ''"
    by simp
  then have sp: "line ! ?n = CHR '' ''" by (simp add: ascii_upper_space)
  from len have "line = p @ line ! ?n # rest"
    unfolding p_def rest_def by (simp add: id_take_nth_drop)
  with sp have line: "line = p @ CHR '' '' # rest" by simp
  have "CHR '' '' \<notin> set p"
  proof
    assume "CHR '' '' \<in> set p"
    then have "ascii_upper (CHR '' '') \<in> set (map ascii_upper p)"
      by force
    moreover have "ascii_upper (CHR '' '') = CHR '' ''" by (simp add: ascii_upper_space)
    ultimately have "CHR '' '' \<in> set v" using folded by simp
    with http_verb_no_space[OF assms(2)] show False by simp
  qed
  then have "command_name (p @ CHR '' '' # rest) = toUpperCase p"
    by (rule command_name_prefix)
  with line upp show ?thesis by simp
qed

lemma handler_not_http: "has_handler (command_name line) \<Longrightarrow> \<not> is_http_request line"
  by (auto simp: is_http_request_def list_ex_iff dest: http_command_name http_verb_not_handler)

lemma handler_name_canonical: "has_handler v \<Longrightarrow> toUpperCase (trim v) = v"
  by (auto simp: has_handler_def handler_names_def trim_def char_defs)

lemma recognized_iff:
  "isSupported opts v \<and> has_handler v \<longleftrightarrow> has_handler v \<and> v \<notin> set (disabledCommands opts)"
  by (auto simp: isSupported_def Let_def handler_name_canonical)


lemma send_fields [simp]:
  "ready (send code msg c) = ready c"
  "upgrading (send code msg c) = upgrading c"
  "nextHandler (send code msg c) = nextHandler c"
  "unrecognizedCommands (send code msg c) = unrecognizedCommands c"
  "unauthenticatedCommands (send code msg c) = unauthenticatedCommands c"
  "closing (send code msg c) = closing c"
  "closed (send code msg c) = closed c"
  "hostNameAppearsAs (send code msg c) = hostNameAppearsAs c"
  "session (send code msg c) = session c"
  "transactionCounter (send code msg c) = transactionCounter c"
  "parser (send code msg c) = parser c"
  "xclient (send code msg c) = xclient c"
  "writable (socket (send code msg c)) = writable (socket c)"
  "destroyed (socket (send code msg c)) = destroyed (socket c)"
  by (simp_all add: send_def socket_write_def)

lemma send_written:
  "written (socket (send code msg c)) =
     (if writable (socket c) then written (socket c) @ [payload_of code msg @ CRLF]
      else written (socket c))"
  by (simp add: send_def socket_write_def)

lemma close_fields [simp]:
  "ready (close c) = ready c"
  "upgrading (close c) = upgrading c"
  "nextHandler (close c) = nextHandler c"
  "unrecognizedCommands (close c) = unrecognizedCommands c"
  "unauthenticatedCommands (close c) = unauthenticatedCommands c"
  "closing (close c) = True"
  "hostNameAppearsAs (close c) = hostNameAppearsAs c"
  "session (close c) = session c"
  "written (socket (close c)) = written (socket c)"
  by (simp_all add: close_def socket_end_def Let_def)

lemma session_user_send [simp]: "session_user (send code msg c) = session_user c"
  by (simp add: session_user_def)

lemma helo_auth_gates_no_handler:
  assumes "\<not> truthy (hostNameAppearsAs c)"
    and "h \<notin> Invoke ` set [''MAIL'', ''RCPT'', ''DATA'', ''AUTH''] \<or> verb_in v [''MAIL'', ''RCPT'', ''DATA'', ''AUTH'']"
    and "verb_in v [''MAIL'', ''RCPT'', ''DATA'', ''AUTH''] \<longrightarrow> truthy v"
  shows "snd (helo_auth_gates opts c v h) \<notin> Invoke ` set [''MAIL'', ''RCPT'', ''DATA'', ''AUTH'']"
  using assms by (auto simp: helo_auth_gates_def)

lemma unauthenticated_gate_no_handler:
  assumes "\<not> truthy (hostNameAppearsAs c)"
    and "h \<notin> Invoke ` set [''MAIL'', ''RCPT'', ''DATA'', ''AUTH''] \<or> verb_in v [''MAIL'', ''RCPT'', ''DATA'', ''AUTH'']"
    and "verb_in v [''MAIL'', ''RCPT'', ''DATA'', ''AUTH''] \<longrightarrow> truthy v"
  shows "snd (unauthenticated_gate opts c v h) \<notin> Invoke ` set [''MAIL'', ''RCPT'', ''DATA'', ''AUTH'']"
  using assms helo_auth_gates_no_handler[of "c\<lparr>unauthenticatedCommands := unauthenticatedCommands c + 1\<rparr>" h v opts]
    helo_auth_gates_no_handler[of c h v opts]
  by (simp add: unauthenticated_gate_def Let_def)

lemma no_handler_before_helo:
  assumes "\<not> truthy (hostNameAppearsAs c)"
  shows "snd (onCommand opts c line) \<notin> Invoke ` set [''MAIL'', ''RCPT'', ''DATA'', ''AUTH'']"
proof -
  let ?V = "Invoke ` set [''MAIL'', ''RCPT'', ''DATA'', ''AUTH'']"
  have proxy: "snd (proxy_header c line) \<notin> ?V"
    by (auto simp: proxy_header_def Let_def split: prod.splits)
  have unrec: "snd (unrecognized c) \<notin> ?V"
    by (auto simp: unrecognized_def Let_def)
  have queued: "snd (unauthenticated_gate opts (c\<lparr>nextHandler := None\<rparr>) None (InvokeNext h)) \<notin> ?V" for h
    using assms by (intro unauthenticated_gate_no_handler) (auto simp: verb_in_def)
  have verb: "snd (unauthenticated_gate opts c (Some (command_name line)) (Invoke (command_name line))) \<notin> ?V"
    if "has_handler (command_name line)"
    using assms that by (intro unauthenticated_gate_no_handler) (auto simp: verb_in_def truthy_def has_handler_def)
  show ?thesis
    using proxy unrec queued verb
    by (simp add: onCommand_def Let_def split: option.splits)
qed


lemmas demo_defs = demo_options_def demo_connection_def SMTPConnection_def startSession_def session_user_def

lemma recognized_dispatch:
  assumes "ready c" "\<not> upgrading c" "nextHandler c = None"
    and "v = command_name line" "has_handler v" "v \<notin> set (disabledCommands opts)"
  shows "onCommand opts c line = unauthenticated_gate opts c (Some v) (Invoke v)"
  using assms handler_not_http[of line] recognized_iff[of opts v]
  by (simp add: onCommand_def Let_def)

subsection \<open>C3: the HELO/EHLO gate\<close>

text \<open>
  C3, as amended. While \<open>hostNameAppearsAs\<close> is unset the dispatcher never calls the
  handler of MAIL, RCPT, DATA or AUTH, whatever the line and the state. The answer is
  503 "Error: send HELO/EHLO first" when the line reaches the gate: the connection is
  ready and not upgrading, no handler is queued, the verb is one of the four and is not
  disabled, and the counter of unauthenticated commands, which is checked first, does not
  reach 10 on this line. The connection sent back is the one the counter check left.
\<close>

theorem helo_gate:
  "(\<not> truthy (hostNameAppearsAs c) \<longrightarrow>
      snd (onCommand opts c line) \<notin> Invoke ` set [''MAIL'', ''RCPT'', ''DATA'', ''AUTH'']) \<and>
   (ready c \<and> \<not> upgrading c \<and> nextHandler c = None \<and>
    command_name line \<in> set [''MAIL'', ''RCPT'', ''DATA'', ''AUTH''] \<and>
    command_name line \<notin> set (disabledCommands opts) \<and>
    \<not> truthy (hostNameAppearsAs c) \<and>
    \<not> (session_user c = None \<and> isSupported opts ''AUTH'' \<and> command_name line \<noteq> ''AUTH'' \<and>
       unauthenticatedCommands c + 1 \<ge> 10) \<longrightarrow>
      onCommand opts c line =
        (send 503 ''Error: send HELO/EHLO first''
           (if session_user c = None \<and> isSupported opts ''AUTH'' \<and> command_name line \<noteq> ''AUTH''
            then c\<lparr>unauthenticatedCommands := unauthenticatedCommands c + 1\<rparr> else c),
         Deferred))"
proof (intro conjI impI)
  assume "\<not> truthy (hostNameAppearsAs c)"
  then show "snd (onCommand opts c line) \<notin> Invoke ` set [''MAIL'', ''RCPT'', ''DATA'', ''AUTH'']"
    by (rule no_handler_before_helo)
next
  let ?v = "command_name line"
  assume a: "ready c \<and> \<not> upgrading c \<and> nextHandler c = None \<and>
    ?v \<in> set [''MAIL'', ''RCPT'', ''DATA'', ''AUTH''] \<and>
    ?v \<notin> set (disabledCommands opts) \<and>
    \<not> truthy (hostNameAppearsAs c) \<and>
    \<not> (session_user c = None \<and> isSupported opts ''AUTH'' \<and> ?v \<noteq> ''AUTH'' \<and>
       unauthenticatedCommands c + 1 \<ge> 10)"
  then have h: "has_handler ?v"
    by (auto simp: has_handler_def handler_names_def)
  from a have ne: "?v \<noteq> []" by auto
  from a h have "onCommand opts c line = unauthenticated_gate opts c (Some ?v) (Invoke ?v)"
    by (intro recognized_dispatch) simp_all
  also have "\<dots> =
        (send 503 ''Error: send HELO/EHLO first''
           (if session_user c = None \<and> isSupported opts ''AUTH'' \<and> ?v \<noteq> ''AUTH''
            then c\<lparr>unauthenticatedCommands := unauthenticatedCommands c + 1\<rparr> else c),
         Deferred)"
  proof -
    define counted where
      "counted \<longleftrightarrow> session_user c = None \<and> isSupported opts ''AUTH'' \<and> ?v \<noteq> ''AUTH''"
    from a have low: "counted \<Longrightarrow> \<not> 10 \<le> unauthenticatedCommands c + 1"
      unfolding counted_def by blast
    from a have gate: "helo_auth_gates opts c' (Some ?v) (Invoke ?v) =
        (send 503 ''Error: send HELO/EHLO first'' c', Deferred)"
      if "hostNameAppearsAs c' = hostNameAppearsAs c" for c'
      using that by (auto simp: helo_auth_gates_def verb_in_def truthy_def)
    have "unauthenticated_gate opts c (Some ?v) (Invoke ?v) =
        (if counted
         then helo_auth_gates opts (c\<lparr>unauthenticatedCommands := unauthenticatedCommands c + 1\<rparr>)
                (Some ?v) (Invoke ?v)
         else helo_auth_gates opts c (Some ?v) (Invoke ?v))"
      using low by (simp add: unauthenticated_gate_def Let_def counted_def [symmetric])
    also have "\<dots> = (send 503 ''Error: send HELO/EHLO first''
           (if counted then c\<lparr>unauthenticatedCommands := unauthenticatedCommands c + 1\<rparr> else c),
         Deferred)"
      by (simp add: gate)
    finally show ?thesis unfolding counted_def .
  qed
  finally show "onCommand opts c line =
        (send 503 ''Error: send HELO/EHLO first''
           (if session_user c = None \<and> isSupported opts ''AUTH'' \<and> ?v \<noteq> ''AUTH''
            then c\<lparr>unauthenticatedCommands := unauthenticatedCommands c + 1\<rparr> else c),
         Deferred)" .
qed

lemma demo_MAIL_name: "command_name ''MAIL FROM:<a@b>'' = ''MAIL''"
  by (simp add: command_name_def shift_def char_defs)

lemma demo_auth_supported: "isSupported demo_options ''AUTH''"
  by (simp add: isSupported_def demo_options_def trim_def has_handler_def handler_names_def char_defs)

text \<open>The gate on a fresh connection: MAIL before HELO is answered 503 and counted once.\<close>

theorem helo_gate_witness:
  "\<not> truthy (hostNameAppearsAs demo_connection) \<and>
   snd (onCommand demo_options demo_connection ''MAIL FROM:<a@b>'') = Deferred \<and>
   written (socket (fst (onCommand demo_options demo_connection ''MAIL FROM:<a@b>''))) =
     [''503 Error: send HELO/EHLO first'' @ CRLF] \<and>
   unauthenticatedCommands (fst (onCommand demo_options demo_connection ''MAIL FROM:<a@b>'')) = 1"
proof -
  have pre: "ready demo_connection \<and> \<not> upgrading demo_connection \<and>
      nextHandler demo_connection = None \<and> session_user demo_connection = None \<and>
      \<not> truthy (hostNameAppearsAs demo_connection) \<and> unauthenticatedCommands demo_connection = 0 \<and>
      writable (socket demo_connection) \<and> written (socket demo_connection) = []"
    by (simp add: demo_defs truthy_def)
  have opts: "disabledCommands demo_options = []" by (simp add: demo_options_def)
  have payload: "payload_of 503 ''Error: send HELO/EHLO first'' = ''503 Error: send HELO/EHLO first''"
    by (simp add: payload_of_def string_of_nat.simps digit_chars_def)
  from helo_gate[of demo_connection demo_options "''MAIL FROM:<a@b>''"] pre opts
    demo_MAIL_name demo_auth_supported payload
  show ?thesis
    by (simp add: send_written)
qed

text \<open>
  The claim as it was stated fails on the tenth unauthenticated command: MAIL before HELO
  is then answered 554 and the connection is closed, without the 503.
\<close>

theorem helo_gate_counterexample:
  "ready (demo_connection\<lparr>unauthenticatedCommands := 9\<rparr>) \<and>
   \<not> truthy (hostNameAppearsAs (demo_connection\<lparr>unauthenticatedCommands := 9\<rparr>)) \<and>
   command_name ''MAIL FROM:<a@b>'' = ''MAIL'' \<and>
   snd (onCommand demo_options (demo_connection\<lparr>unauthenticatedCommands := 9\<rparr>) ''MAIL FROM:<a@b>'') = Returned \<and>
   written (socket (fst (onCommand demo_options (demo_connection\<lparr>unauthenticatedCommands := 9\<rparr>) ''MAIL FROM:<a@b>''))) =
     [''554 Error: too many unauthenticated commands'' @ CRLF] \<and>
   closing (fst (onCommand demo_options (demo_connection\<lparr>unauthenticatedCommands := 9\<rparr>) ''MAIL FROM:<a@b>''))"
proof -
  let ?c = "demo_connection\<lparr>unauthenticatedCommands := 9\<rparr>"
  have pre: "ready ?c \<and> \<not> upgrading ?c \<and>
      nextHandler ?c = None \<and> session_user ?c = None \<and>
      \<not> truthy (hostNameAppearsAs ?c) \<and> unauthenticatedCommands ?c = 9 \<and>
      writable (socket ?c) \<and> written (socket ?c) = []"
    by (simp add: demo_defs truthy_def)
  have opts: "disabledCommands demo_options = []" by (simp add: demo_options_def)
  have h: "has_handler ''MAIL''" by (simp add: has_handler_def handler_names_def)
  have payload: "payload_of 554 ''Error: too many unauthenticated commands'' = ''554 Error: too many unauthenticated commands''"
    by (simp add: payload_of_def string_of_nat.simps digit_chars_def)
  have "onCommand demo_options ?c ''MAIL FROM:<a@b>'' = unauthenticated_gate demo_options ?c (Some ''MAIL'') (Invoke ''MAIL'')"
    using pre opts h demo_MAIL_name by (intro recognized_dispatch) simp_all
  with pre demo_auth_supported payload demo_MAIL_name show ?thesis
    by (simp add: unauthenticated_gate_def Let_def send_written)
qed

subsection \<open>C4: the counter of unauthenticated commands\<close>

lemma dispatch_ready:
  assumes "ready c" "\<not> upgrading c" "\<not> is_http_request line"
  shows "onCommand opts c line =
     (case nextHandler c of
        Some h \<Rightarrow> unauthenticated_gate opts (c\<lparr>nextHandler := None\<rparr>) None (InvokeNext h)
      | None \<Rightarrow>
          (if has_handler (command_name line) \<and> command_name line \<notin> set (disabledCommands opts)
           then unauthenticated_gate opts c (Some (command_name line)) (Invoke (command_name line))
           else unrecognized c))"
proof -
  have r: "(isSupported opts (command_name line) \<and> has_handler (command_name line)) =
      (has_handler (command_name line) \<and> command_name line \<notin> set (disabledCommands opts))"
    by (rule recognized_iff)
  show ?thesis
    using assms by (simp only: onCommand_def Let_def r) simp
qed

text \<open>
  C4, as amended. AUTH is supported and no user is authenticated; the connection is ready
  and not upgrading, and the line has a recognised verb other than AUTH. Then the dispatcher adds
  one to \<open>unauthenticatedCommands\<close>. When the count reaches 10 it sends 554 and closes,
  and no handler runs. Below 10 the line goes on through the later checks as if nothing
  had been counted: a queued handler is called; otherwise the HELO gate answers 503, the
  authentication gate answers 530 to MAIL, RCPT and DATA, and any other verb has its
  handler called.
\<close>

theorem unauthenticated_counter:
  assumes "ready c" and "\<not> upgrading c"
    and "session_user c = None" and "isSupported opts ''AUTH''"
    and "has_handler (command_name line)"
    and "command_name line \<notin> set (disabledCommands opts)"
    and "command_name line \<noteq> ''AUTH''"
  shows "onCommand opts c line =
     (let v = command_name line;
          c1 = c\<lparr>nextHandler := None, unauthenticatedCommands := unauthenticatedCommands c + 1\<rparr>
      in if unauthenticatedCommands c + 1 \<ge> 10
         then (close (send 554 ''Error: too many unauthenticated commands'' c1), Returned)
         else (case nextHandler c of
                 Some h \<Rightarrow> (c1, InvokeNext h)
               | None \<Rightarrow>
                   (if \<not> truthy (hostNameAppearsAs c) \<and> v \<in> set [''MAIL'', ''RCPT'', ''DATA'', ''AUTH'']
                    then (send 503 ''Error: send HELO/EHLO first'' c1, Deferred)
                    else if v \<in> set [''MAIL'', ''RCPT'', ''DATA'']
                    then (send 530 ''Error: authentication Required'' c1, Deferred)
                    else (c1, Invoke v)))) \<and>
     unauthenticatedCommands (fst (onCommand opts c line)) = unauthenticatedCommands c + 1"
proof -
  let ?v = "command_name line"
  let ?n = "unauthenticatedCommands c"
  from assms(5) have nohttp: "\<not> is_http_request line" by (rule handler_not_http)
  from assms(5) have ne: "?v \<noteq> []" by (auto simp: has_handler_def handler_names_def)
  show ?thesis
  proof (cases "nextHandler c")
    case (Some h)
    have eq: "c\<lparr>unauthenticatedCommands := Suc ?n, nextHandler := None\<rparr> =
          c\<lparr>nextHandler := None, unauthenticatedCommands := Suc ?n\<rparr>" by simp
    from Some assms nohttp show ?thesis
      by (simp add: dispatch_ready unauthenticated_gate_def helo_auth_gates_def Let_def
            verb_in_def truthy_def session_user_def)
  next
    case None
    then have same: "c\<lparr>nextHandler := None\<rparr> = c" by (cases c) simp
    have upd: "c\<lparr>nextHandler := None, unauthenticatedCommands := Suc ?n\<rparr> =
        c\<lparr>unauthenticatedCommands := Suc ?n\<rparr>" using same by simp
    from None assms nohttp ne show ?thesis
      by (simp add: dispatch_ready unauthenticated_gate_def helo_auth_gates_def Let_def
            verb_in_def upd session_user_def) (simp add: truthy_def)
  qed
qed


lemma demo_pre:
  "ready demo_connection" "\<not> upgrading demo_connection" "nextHandler demo_connection = None"
  "session_user demo_connection = None" "hostNameAppearsAs demo_connection = None"
  "unauthenticatedCommands demo_connection = 0" "unrecognizedCommands demo_connection = 0"
  "writable (socket demo_connection)" "written (socket demo_connection) = []"
  "\<not> closing demo_connection" "disabledCommands demo_options = []"
  by (simp_all add: demo_defs)

lemma demo_NOOP_name: "command_name ''NOOP'' = ''NOOP''"
  by (simp add: command_name_def shift_def char_defs)

text \<open>NOOP on a fresh connection is counted and dispatched; the tenth one closes.\<close>

theorem unauthenticated_counter_witness:
  "onCommand demo_options demo_connection ''NOOP'' =
     (demo_connection\<lparr>nextHandler := None, unauthenticatedCommands := 1\<rparr>, Invoke ''NOOP'') \<and>
   snd (onCommand demo_options (demo_connection\<lparr>unauthenticatedCommands := 9\<rparr>) ''NOOP'') = Returned \<and>
   closing (fst (onCommand demo_options (demo_connection\<lparr>unauthenticatedCommands := 9\<rparr>) ''NOOP'')) \<and>
   unauthenticatedCommands (fst (onCommand demo_options (demo_connection\<lparr>unauthenticatedCommands := 9\<rparr>) ''NOOP'')) = 10"
proof -
  have h: "has_handler ''NOOP''" by (simp add: has_handler_def handler_names_def)
  have a: "onCommand demo_options demo_connection ''NOOP'' =
     (demo_connection\<lparr>nextHandler := None, unauthenticatedCommands := 1\<rparr>, Invoke ''NOOP'')"
    using unauthenticated_counter[of demo_connection demo_options "''NOOP''"]
      demo_pre demo_auth_supported demo_NOOP_name h
    by (simp add: truthy_def)
  let ?c = "demo_connection\<lparr>unauthenticatedCommands := 9\<rparr>"
  have b: "snd (onCommand demo_options ?c ''NOOP'') = Returned \<and>
      closing (fst (onCommand demo_options ?c ''NOOP'')) \<and>
      unauthenticatedCommands (fst (onCommand demo_options ?c ''NOOP'')) = 10"
    using unauthenticated_counter[of ?c demo_options "''NOOP''"]
      demo_pre demo_auth_supported demo_NOOP_name h
    by (simp add: session_user_def)
  from a b show ?thesis by simp
qed

text \<open>
  The claim as it was stated leaves out that the connection is ready: a client that sends
  EHLO before the greeting is answered 421 and closed, and the command is not counted.
\<close>

theorem unauthenticated_counter_counterexample:
  "session_user (SMTPConnection demo_options ''localhost'' ''c1'' (Some ''10.0.0.1'')) = None \<and>
   isSupported demo_options ''AUTH'' \<and>
   command_name ''EHLO client.example'' = ''EHLO'' \<and> has_handler ''EHLO'' \<and>
   unauthenticatedCommands (SMTPConnection demo_options ''localhost'' ''c1'' (Some ''10.0.0.1'')) = 0 \<and>
   unauthenticatedCommands
     (fst (onCommand demo_options (SMTPConnection demo_options ''localhost'' ''c1'' (Some ''10.0.0.1''))
        ''EHLO client.example'')) = 0 \<and>
   onCommand demo_options (SMTPConnection demo_options ''localhost'' ''c1'' (Some ''10.0.0.1''))
     ''EHLO client.example'' =
     (close (send 421 ''mx.example You talk too soon''
        (SMTPConnection demo_options ''localhost'' ''c1'' (Some ''10.0.0.1''))), Returned)"
proof -
  let ?c = "SMTPConnection demo_options ''localhost'' ''c1'' (Some ''10.0.0.1'')"
  have pre: "\<not> ready ?c" "\<not> useProxy demo_options" "name ?c = ''mx.example''"
    "session_user ?c = None" "unauthenticatedCommands ?c = 0"
    by (simp_all add: SMTPConnection_def demo_options_def session_user_def)
  have verb: "command_name ''EHLO client.example'' = ''EHLO''" "has_handler ''EHLO''"
    by (simp_all add: command_name_def shift_def char_defs has_handler_def handler_names_def)
  have run: "onCommand demo_options ?c ''EHLO client.example'' =
      (close (send 421 ''mx.example You talk too soon'' ?c), Returned)"
    using pre by (simp add: onCommand_def)
  from pre verb demo_auth_supported show ?thesis
    by (simp add: run)
qed

subsection \<open>C5: unrecognised commands\<close>

lemma unrecognized_step:
  assumes "ready c" "\<not> upgrading c" "nextHandler c = None" "\<not> is_http_request line"
    and "\<not> has_handler (command_name line) \<or> command_name line \<in> set (disabledCommands opts)"
  shows "onCommand opts c line =
     (if unrecognizedCommands c + 1 \<ge> 10
      then (close (send 554 ''Error: too many unrecognized commands''
                     (c\<lparr>unrecognizedCommands := unrecognizedCommands c + 1\<rparr>)), Returned)
      else (send 500 ''Error: command not recognized''
              (c\<lparr>unrecognizedCommands := unrecognizedCommands c + 1\<rparr>), Deferred))"
  using assms by (auto simp: dispatch_ready unrecognized_def Let_def)

lemma feed_unrecognized:
  assumes "ready c" "\<not> upgrading c" "nextHandler c = None"
    and "\<forall>l \<in> set ls. \<not> is_http_request l \<and>
           (\<not> has_handler (command_name l) \<or> command_name l \<in> set (disabledCommands opts))"
    and "unrecognizedCommands c + length ls < 10"
  shows "feed run opts c ls = (count_unrecognized ^^ length ls) c"
  using assms
proof (induction ls arbitrary: c)
  case Nil
  then show ?case by simp
next
  case (Cons l ls)
  from Cons.prems have step: "onCommand opts c l = (count_unrecognized c, Deferred)"
    by (simp add: unrecognized_step count_unrecognized_def)
  have "feed run opts (count_unrecognized c) ls = (count_unrecognized ^^ length ls) (count_unrecognized c)"
    using Cons.prems by (intro Cons.IH) (simp_all add: count_unrecognized_def)
  with step show ?case by (simp add: funpow_swap1)
qed

lemma count_unrecognized_funpow:
  "ready ((count_unrecognized ^^ k) c) = ready c"
  "upgrading ((count_unrecognized ^^ k) c) = upgrading c"
  "nextHandler ((count_unrecognized ^^ k) c) = nextHandler c"
  "closing ((count_unrecognized ^^ k) c) = closing c"
  "unrecognizedCommands ((count_unrecognized ^^ k) c) = unrecognizedCommands c + k"
  "writable (socket ((count_unrecognized ^^ k) c)) = writable (socket c)"
  "written (socket ((count_unrecognized ^^ k) c)) =
     written (socket c) @
     (if writable (socket c) then replicate k (payload_of 500 ''Error: command not recognized'' @ CRLF) else [])"
  by (induction k) (simp_all add: count_unrecognized_def send_written replicate_append_same)


lemma payload_500: "payload_of 500 ''Error: command not recognized'' = ''500 Error: command not recognized''"
  by (simp add: payload_of_def string_of_nat.simps digit_chars_def)

lemma payload_554_unrecognized:
  "payload_of 554 ''Error: too many unrecognized commands'' = ''554 Error: too many unrecognized commands''"
  by (simp add: payload_of_def string_of_nat.simps digit_chars_def)

lemma feed_unrecognized_limit:
  assumes "ready c" "\<not> upgrading c" "nextHandler c = None"
    and "\<forall>l \<in> set ls. \<not> is_http_request l \<and>
           (\<not> has_handler (command_name l) \<or> command_name l \<in> set (disabledCommands opts))"
    and "unrecognizedCommands c + length ls = 10" and "ls \<noteq> []"
  shows "feed run opts c ls =
     close (send 554 ''Error: too many unrecognized commands''
              (((count_unrecognized ^^ (length ls - 1)) c)\<lparr>unrecognizedCommands := 10\<rparr>))"
  using assms
proof (induction ls arbitrary: c)
  case Nil
  then show ?case by simp
next
  case (Cons l ls)
  show ?case
  proof (cases "ls = []")
    case True
    with Cons.prems have "unrecognizedCommands c = 9" by simp
    with Cons.prems True show ?thesis by (simp add: unrecognized_step)
  next
    case False
    then obtain k where "length ls = Suc k" by (cases ls) auto
    with Cons.prems(5) have "\<not> 10 \<le> unrecognizedCommands c + 1" by simp
    with Cons.prems have step: "onCommand opts c l = (count_unrecognized c, Deferred)"
      by (simp add: unrecognized_step count_unrecognized_def)
    have "feed run opts (count_unrecognized c) ls =
        close (send 554 ''Error: too many unrecognized commands''
              (((count_unrecognized ^^ (length ls - 1)) (count_unrecognized c))\<lparr>unrecognizedCommands := 10\<rparr>))"
      using Cons.prems False by (intro Cons.IH) (simp_all add: count_unrecognized_def)
    moreover from False have "length ls = Suc (length ls - 1)" by simp
    then have "(count_unrecognized ^^ (length ls - 1)) (count_unrecognized c) =
        (count_unrecognized ^^ length ls) c"
      by (metis funpow_swap1 funpow.simps(2) o_apply)
    ultimately show ?thesis using step by simp
  qed
qed

text \<open>
  C5, as amended. The connection is ready and not upgrading and no handler is queued;
  the line is not an HTTP request line, and its verb has no handler or is disabled. Then
  the dispatcher adds one to \<open>unrecognizedCommands\<close>; below 10 it answers 500 "Error:
  command not recognized" and the callback is scheduled, and the command that brings the
  count to 10 is answered 554 and the connection is closed. Fed from a count of 0, up to
  nine such lines leave the connection as open as it was, with one 500 each, and ten
  lines end with the 554 and the connection closing.
\<close>

theorem unrecognized_commands:
  "(ready c \<and> \<not> upgrading c \<and> nextHandler c = None \<and> \<not> is_http_request line \<and>
    (\<not> has_handler (command_name line) \<or> command_name line \<in> set (disabledCommands opts)) \<longrightarrow>
      onCommand opts c line =
        (if unrecognizedCommands c + 1 \<ge> 10
         then (close (send 554 ''Error: too many unrecognized commands''
                        (c\<lparr>unrecognizedCommands := unrecognizedCommands c + 1\<rparr>)), Returned)
         else (send 500 ''Error: command not recognized''
                 (c\<lparr>unrecognizedCommands := unrecognizedCommands c + 1\<rparr>), Deferred))) \<and>
   (ready c \<and> \<not> upgrading c \<and> nextHandler c = None \<and> unrecognizedCommands c = 0 \<and>
    writable (socket c) \<and>
    (\<forall>l \<in> set ls. \<not> is_http_request l \<and>
       (\<not> has_handler (command_name l) \<or> command_name l \<in> set (disabledCommands opts))) \<longrightarrow>
      (length ls \<le> 9 \<longrightarrow>
         closing (feed run opts c ls) = closing c \<and>
         unrecognizedCommands (feed run opts c ls) = length ls \<and>
         written (socket (feed run opts c ls)) =
           written (socket c) @ replicate (length ls) (''500 Error: command not recognized'' @ CRLF)) \<and>
      (length ls = 10 \<longrightarrow>
         closing (feed run opts c ls) \<and>
         unrecognizedCommands (feed run opts c ls) = 10 \<and>
         written (socket (feed run opts c ls)) =
           written (socket c) @ replicate 9 (''500 Error: command not recognized'' @ CRLF) @
           [''554 Error: too many unrecognized commands'' @ CRLF]))"
proof (intro conjI impI)
  assume "ready c \<and> \<not> upgrading c \<and> nextHandler c = None \<and> \<not> is_http_request line \<and>
    (\<not> has_handler (command_name line) \<or> command_name line \<in> set (disabledCommands opts))"
  then show "onCommand opts c line =
        (if unrecognizedCommands c + 1 \<ge> 10
         then (close (send 554 ''Error: too many unrecognized commands''
                        (c\<lparr>unrecognizedCommands := unrecognizedCommands c + 1\<rparr>)), Returned)
         else (send 500 ''Error: command not recognized''
                 (c\<lparr>unrecognizedCommands := unrecognizedCommands c + 1\<rparr>), Deferred))"
    by (intro unrecognized_step) simp_all
next
  assume a: "ready c \<and> \<not> upgrading c \<and> nextHandler c = None \<and> unrecognizedCommands c = 0 \<and>
    writable (socket c) \<and>
    (\<forall>l \<in> set ls. \<not> is_http_request l \<and>
       (\<not> has_handler (command_name l) \<or> command_name l \<in> set (disabledCommands opts)))"
  {
    assume "length ls \<le> 9"
    with a have f: "feed run opts c ls = (count_unrecognized ^^ length ls) c"
      by (intro feed_unrecognized) simp_all
    from a f show "closing (feed run opts c ls) = closing c"
      by (simp add: count_unrecognized_funpow)
    from a f show "unrecognizedCommands (feed run opts c ls) = length ls"
      by (simp add: count_unrecognized_funpow)
    from a f show "written (socket (feed run opts c ls)) =
           written (socket c) @ replicate (length ls) (''500 Error: command not recognized'' @ CRLF)"
      by (simp add: count_unrecognized_funpow payload_500)
  }
  {
    assume l: "length ls = 10"
    then have "ls \<noteq> []" by auto
    with a l have f: "feed run opts c ls =
        close (send 554 ''Error: too many unrecognized commands''
              (((count_unrecognized ^^ (length ls - 1)) c)\<lparr>unrecognizedCommands := 10\<rparr>))"
      by (intro feed_unrecognized_limit) simp_all
    from f show "closing (feed run opts c ls)" by simp
    from f show "unrecognizedCommands (feed run opts c ls) = 10" by simp
    from a l f show "written (socket (feed run opts c ls)) =
           written (socket c) @ replicate 9 (''500 Error: command not recognized'' @ CRLF) @
           [''554 Error: too many unrecognized commands'' @ CRLF]"
      by (simp add: send_written count_unrecognized_funpow payload_500 payload_554_unrecognized)
  }
qed


lemma demo_FOO:
  "command_name ''FOO'' = ''FOO''" "\<not> has_handler ''FOO''" "\<not> is_http_request ''FOO''"
  by (simp_all add: command_name_def shift_def char_defs has_handler_def handler_names_def
        is_http_request_def http_verbs_def http_with_verb_def)

text \<open>Nine and ten lines FOO on a fresh connection.\<close>

theorem unrecognized_commands_witness:
  "onCommand demo_options demo_connection ''FOO'' =
     (send 500 ''Error: command not recognized'' (demo_connection\<lparr>unrecognizedCommands := 1\<rparr>), Deferred) \<and>
   \<not> closing (feed (\<lambda>d c l. (c, True)) demo_options demo_connection (replicate 9 ''FOO'')) \<and>
   written (socket (feed (\<lambda>d c l. (c, True)) demo_options demo_connection (replicate 9 ''FOO''))) =
     replicate 9 (''500 Error: command not recognized'' @ CRLF) \<and>
   closing (feed (\<lambda>d c l. (c, True)) demo_options demo_connection (replicate 10 ''FOO'')) \<and>
   written (socket (feed (\<lambda>d c l. (c, True)) demo_options demo_connection (replicate 10 ''FOO''))) =
     replicate 9 (''500 Error: command not recognized'' @ CRLF) @
     [''554 Error: too many unrecognized commands'' @ CRLF]"
proof -
  let ?run = "\<lambda>(d::dispatch) (c::connection) (l::string). (c, True)"
  have one: "onCommand demo_options demo_connection ''FOO'' =
     (send 500 ''Error: command not recognized'' (demo_connection\<lparr>unrecognizedCommands := 1\<rparr>), Deferred)"
    using unrecognized_commands[of demo_connection "''FOO''" demo_options "[]" ?run] demo_pre demo_FOO
    by simp
  have nine: "\<not> closing (feed ?run demo_options demo_connection (replicate 9 ''FOO'')) \<and>
     written (socket (feed ?run demo_options demo_connection (replicate 9 ''FOO''))) =
       replicate 9 (''500 Error: command not recognized'' @ CRLF)"
    using unrecognized_commands[of demo_connection "''FOO''" demo_options "replicate 9 ''FOO''" ?run]
      demo_pre demo_FOO
    by simp
  have ten: "closing (feed ?run demo_options demo_connection (replicate 10 ''FOO'')) \<and>
     written (socket (feed ?run demo_options demo_connection (replicate 10 ''FOO''))) =
       replicate 9 (''500 Error: command not recognized'' @ CRLF) @
       [''554 Error: too many unrecognized commands'' @ CRLF]"
    using unrecognized_commands[of demo_connection "''FOO''" demo_options "replicate 10 ''FOO''" ?run]
      demo_pre demo_FOO
    by simp
  from one nine ten show ?thesis by simp
qed

text \<open>
  The claim as it was stated fails on an HTTP request line: its verb GET has no handler,
  but the line is not counted, and the first such line is answered 554 and closes the
  connection.
\<close>

theorem unrecognized_commands_counterexample:
  "ready demo_connection \<and> unrecognizedCommands demo_connection = 0 \<and>
   \<not> has_handler (command_name ''GET / HTTP/1.1'') \<and>
   onCommand demo_options demo_connection ''GET / HTTP/1.1'' =
     (close (send 554 ''HTTP requests not allowed'' demo_connection), Returned) \<and>
   unrecognizedCommands (fst (onCommand demo_options demo_connection ''GET / HTTP/1.1'')) = 0 \<and>
   closing (fst (onCommand demo_options demo_connection ''GET / HTTP/1.1'')) \<and>
   written (socket (fst (onCommand demo_options demo_connection ''GET / HTTP/1.1''))) =
     [''554 HTTP requests not allowed'' @ CRLF]"
proof -
  have http: "is_http_request ''GET / HTTP/1.1''"
    by (simp add: is_http_request_def http_verbs_def http_with_verb_def http_tail_def
          is_digit_def digit_chars_def is_line_terminator_def char_defs)
  have name: "command_name ''GET / HTTP/1.1'' = ''GET''"
    by (simp add: command_name_def shift_def char_defs)
  have payload: "payload_of 554 ''HTTP requests not allowed'' = ''554 HTTP requests not allowed''"
    by (simp add: payload_of_def string_of_nat.simps digit_chars_def)
  have run: "onCommand demo_options demo_connection ''GET / HTTP/1.1'' =
     (close (send 554 ''HTTP requests not allowed'' demo_connection), Returned)"
    using http demo_pre by (simp add: onCommand_def)
  show ?thesis
    using demo_pre name payload
    by (simp add: run send_written has_handler_def handler_names_def)
qed

subsection \<open>C8: the gates of AUTH\<close>

text \<open>
  C8. The handler of AUTH checks in this order. If STARTTLS is offered (supported and
  not hidden) and the transport is not secure, the answer is 538, whoever is
  authenticated and whatever the mechanism. Otherwise, if a user is authenticated, the
  answer is 503. Otherwise, if the mechanism, the second piece of the line in upper
  case, is not in \<open>authMethods\<close> or has no implementation, the answer is 504. The
  mechanism is called exactly when all three checks pass, with the pieces after its name.
\<close>

theorem handler_AUTH_gate_order:
  "(\<not> secure c \<and> isSupported opts ''STARTTLS'' \<and> \<not> hideSTARTTLS opts \<longrightarrow>
      handler_AUTH sasl opts c command =
        (send 538 ''Error: Must issue a STARTTLS command first'' c, Done)) \<and>
   (\<not> (\<not> secure c \<and> isSupported opts ''STARTTLS'' \<and> \<not> hideSTARTTLS opts) \<and>
    session_user c \<noteq> None \<longrightarrow>
      handler_AUTH sasl opts c command =
        (send 503 ''Error: No identity changes permitted'' c, Done)) \<and>
   (\<not> (\<not> secure c \<and> isSupported opts ''STARTTLS'' \<and> \<not> hideSTARTTLS opts) \<and>
    session_user c = None \<and>
    (fst (auth_arguments command) \<notin> set (authMethods opts) \<or> \<not> sasl (fst (auth_arguments command))) \<longrightarrow>
      handler_AUTH sasl opts c command =
        (send 504 ''Error: Unrecognized authentication type'' c, Done)) \<and>
   (\<not> (\<not> secure c \<and> isSupported opts ''STARTTLS'' \<and> \<not> hideSTARTTLS opts) \<and>
    session_user c = None \<and>
    fst (auth_arguments command) \<in> set (authMethods opts) \<and> sasl (fst (auth_arguments command)) \<longrightarrow>
      handler_AUTH sasl opts c command =
        (c, Ask_sasl (fst (auth_arguments command)) (snd (auth_arguments command)))) \<and>
   ((\<exists>m a. snd (handler_AUTH sasl opts c command) = Ask_sasl m a) \<longleftrightarrow>
      \<not> (\<not> secure c \<and> isSupported opts ''STARTTLS'' \<and> \<not> hideSTARTTLS opts) \<and>
      session_user c = None \<and>
      fst (auth_arguments command) \<in> set (authMethods opts) \<and> sasl (fst (auth_arguments command)))"
  by (cases "auth_arguments command") (auto simp: handler_AUTH_def)

lemma demo_AUTH_PLAIN: "auth_arguments ''AUTH PLAIN dGVzdA=='' = (''PLAIN'', [''dGVzdA==''])"
  by (simp add: auth_arguments_def shift_def split_ws_def trim_def char_defs)

lemma demo_starttls_supported: "isSupported demo_options ''STARTTLS''"
  by (simp add: isSupported_def demo_options_def trim_def has_handler_def handler_names_def char_defs)

text \<open>AUTH PLAIN before and after TLS, and a mechanism that is not configured.\<close>

theorem handler_AUTH_gate_order_witness:
  "handler_AUTH (\<lambda>m. m = ''PLAIN'') demo_options demo_connection ''AUTH PLAIN dGVzdA=='' =
     (send 538 ''Error: Must issue a STARTTLS command first'' demo_connection, Done) \<and>
   handler_AUTH (\<lambda>m. m = ''PLAIN'') demo_options (demo_connection\<lparr>secure := True\<rparr>) ''AUTH PLAIN dGVzdA=='' =
     (demo_connection\<lparr>secure := True\<rparr>, Ask_sasl ''PLAIN'' [''dGVzdA=='']) \<and>
   handler_AUTH (\<lambda>m. m = ''PLAIN'') demo_options (demo_connection\<lparr>secure := True\<rparr>) ''AUTH LOGIN'' =
     (send 504 ''Error: Unrecognized authentication type'' (demo_connection\<lparr>secure := True\<rparr>), Done)"
proof -
  let ?sasl = "\<lambda>m::string. m = ''PLAIN''"
  let ?c = "demo_connection\<lparr>secure := True\<rparr>"
  have login: "auth_arguments ''AUTH LOGIN'' = (''LOGIN'', [])"
    by (simp add: auth_arguments_def shift_def split_ws_def trim_def char_defs)
  have s0: "\<not> secure demo_connection" "session_user demo_connection = None"
    "session_user ?c = None" "authMethods demo_options = [''PLAIN'']"
    "\<not> hideSTARTTLS demo_options"
    by (simp_all add: demo_defs)
  have a: "handler_AUTH ?sasl demo_options demo_connection ''AUTH PLAIN dGVzdA=='' =
     (send 538 ''Error: Must issue a STARTTLS command first'' demo_connection, Done)"
    using handler_AUTH_gate_order[of demo_connection demo_options ?sasl "''AUTH PLAIN dGVzdA==''"]
      s0 demo_starttls_supported
    by simp
  have b: "handler_AUTH ?sasl demo_options ?c ''AUTH PLAIN dGVzdA=='' = (?c, Ask_sasl ''PLAIN'' [''dGVzdA==''])"
    using handler_AUTH_gate_order[of ?c demo_options ?sasl "''AUTH PLAIN dGVzdA==''"] s0 demo_AUTH_PLAIN
    by simp
  have c: "handler_AUTH ?sasl demo_options ?c ''AUTH LOGIN'' =
     (send 504 ''Error: Unrecognized authentication type'' ?c, Done)"
    using handler_AUTH_gate_order[of ?c demo_options ?sasl "''AUTH LOGIN''"] s0 login
    by simp
  from a b c show ?thesis by simp
qed


subsection \<open>C9: the end of a DATA transaction\<close>

lemma startSession_fields [simp]:
  "transactionCounter (startSession c) = transactionCounter c"
  "unrecognizedCommands (startSession c) = unrecognizedCommands c"
  "unauthenticatedCommands (startSession c) = unauthenticatedCommands c"
  "parser (startSession c) = parser c"
  "dataStream (startSession c) = dataStream c"
  "socket (startSession c) = socket c"
  "ready (startSession c) = ready c"
  "closing (startSession c) = closing c"
  by (simp_all add: startSession_def)

lemma startSession_session:
  "map_option s_envelope (session (startSession c)) = Some \<lparr>mailFrom = None, rcptTo = []\<rparr>"
  "map_option s_user (session (startSession c)) = Some (session_user c)"
  "map_option s_transaction (session (startSession c)) = Some (transactionCounter c + 1)"
  by (simp_all add: startSession_def)

text \<open>
  C9. When the transaction is completed, which \<^verbatim>\<open>close\<close> inside the handler of DATA
  does while the sink and the parser are there, the final reply is sent (the code of
  the error, 554 by default, or 250), the session is a fresh one whose envelope has no
  \<open>mailFrom\<close> and an empty \<open>rcptTo\<close> and which keeps the user, the transaction
  counter is one more, \<open>unrecognizedCommands\<close> is 0 and \<^verbatim>\<open>continue()\<close> has been
  called on the parser, which is then in COMMAND mode and not paused. The callback of \<^verbatim>\<open>onData\<close> completes the transaction at once
  when the sink has ended, and the end of the sink completes it otherwise.
\<close>

theorem data_completed:
  assumes "dataStream c = Some stream" and "parser c = Some p"
  shows "snd (data_close c err reply) = Done \<and>
     map_option s_envelope (session (fst (data_close c err reply))) =
       Some \<lparr>mailFrom = None, rcptTo = []\<rparr> \<and>
     map_option s_user (session (fst (data_close c err reply))) = Some (session_user c) \<and>
     transactionCounter (fst (data_close c err reply)) = transactionCounter c + 1 \<and>
     unrecognizedCommands (fst (data_close c err reply)) = 0 \<and>
     parser (fst (data_close c err reply)) = Some (parser_continue p) \<and>
     map_option mode (parser (fst (data_close c err reply))) = Some COMMAND_MODE \<and>
     map_option paused (parser (fst (data_close c err reply))) = Some False \<and>
     written (socket (fst (data_close c err reply))) =
       written (socket c) @
       (if writable (socket c)
        then [(case err of
                 Some e \<Rightarrow> payload_of (response_code e 554) (message e)
               | None \<Rightarrow> payload_of 250 (case reply of Some m \<Rightarrow> m | None \<Rightarrow> ''OK: message queued''))
              @ CRLF]
        else []) \<and>
     (\<not> readable stream \<longrightarrow> onData_callback c err reply = data_close c err reply) \<and>
     dataStream_end c err reply = data_close (c\<lparr>dataStream := Some (stream\<lparr>readable := False\<rparr>)\<rparr>) err reply"
proof -
  note unfold = data_close_def Let_def startSession_session session_user_def parser_continue_def
  have cb: "\<not> readable stream \<longrightarrow> onData_callback c err reply = data_close c err reply"
    using assms by (simp add: onData_callback_def)
  have ev: "dataStream_end c err reply =
      data_close (c\<lparr>dataStream := Some (stream\<lparr>readable := False\<rparr>)\<rparr>) err reply"
    using assms by (simp add: dataStream_end_def)
  have "snd (data_close c err reply) = Done"
    using assms by (cases err) (simp_all add: unfold)
  moreover have "map_option s_envelope (session (fst (data_close c err reply))) =
       Some \<lparr>mailFrom = None, rcptTo = []\<rparr>"
    using assms by (cases err) (simp_all add: unfold)
  moreover have "map_option s_user (session (fst (data_close c err reply))) = Some (session_user c)"
    using assms by (cases err) (simp_all add: unfold)
  moreover have "transactionCounter (fst (data_close c err reply)) = transactionCounter c + 1"
    using assms by (cases err) (simp_all add: unfold)
  moreover have "unrecognizedCommands (fst (data_close c err reply)) = 0"
    using assms by (cases err) (simp_all add: unfold)
  moreover have "parser (fst (data_close c err reply)) = Some (parser_continue p)"
    using assms by (cases err) (simp_all add: data_close_def Let_def)
  moreover have "map_option mode (parser (fst (data_close c err reply))) = Some COMMAND_MODE"
    "map_option paused (parser (fst (data_close c err reply))) = Some False"
    using assms by (cases err; simp add: unfold)+
  moreover have "written (socket (fst (data_close c err reply))) =
       written (socket c) @
       (if writable (socket c)
        then [(case err of
                 Some e \<Rightarrow> payload_of (response_code e 554) (message e)
               | None \<Rightarrow> payload_of 250 (case reply of Some m \<Rightarrow> m | None \<Rightarrow> ''OK: message queued''))
              @ CRLF]
        else [])"
    using assms by (cases err) (simp_all add: unfold send_written)
  ultimately show ?thesis using cb ev by blast
qed


lemma payload_250_queued: "payload_of 250 ''OK: message queued'' = ''250 OK: message queued''"
  by (simp add: payload_of_def string_of_nat.simps digit_chars_def)

text \<open>A transaction with one recipient, completed without an error.\<close>

theorem data_completed_witness:
  "snd (onData_callback demo_in_data None None) = Done \<and>
   map_option s_envelope (session (fst (onData_callback demo_in_data None None))) =
     Some \<lparr>mailFrom = None, rcptTo = []\<rparr> \<and>
   transactionCounter demo_in_data = 0 \<and>
   transactionCounter (fst (onData_callback demo_in_data None None)) = 1 \<and>
   unrecognizedCommands demo_in_data = 3 \<and>
   unrecognizedCommands (fst (onData_callback demo_in_data None None)) = 0 \<and>
   map_option mode (parser demo_in_data) = Some DATA_MODE \<and>
   map_option mode (parser (fst (onData_callback demo_in_data None None))) = Some COMMAND_MODE \<and>
   written (socket (fst (onData_callback demo_in_data None None))) = [''250 OK: message queued'' @ CRLF]"
proof -
  have pre: "dataStream demo_in_data = Some \<lparr>readable = False, listeners = 0\<rparr>"
    "parser demo_in_data = Some \<lparr>mode = DATA_MODE, paused = True, dataBytes = 7, maxBytes = None\<rparr>"
    "transactionCounter demo_in_data = 0" "unrecognizedCommands demo_in_data = 3"
    "writable (socket demo_in_data)" "written (socket demo_in_data) = []"
    by (simp_all add: demo_in_data_def demo_defs)
  from data_completed[OF pre(1) pre(2), of None None] pre payload_250_queued
  show ?thesis by (simp add: parser_continue_def)
qed

subsection \<open>C10: an error from onConnect\<close>

text \<open>
  C10. When \<^verbatim>\<open>onConnect\<close> passes an error, the connection sends the code of the error
  (554 when it has none, or 0) with its message and closes, and then goes on: it sets
  \<open>ready\<close>, and it writes the greeting 220 after the error line if the socket is
  still writable after the close. In this model of the socket that is the case only for
  a socket that says it is destroyed and writable, since \<^verbatim>\<open>end()\<close> ends the writable
  side.
\<close>

theorem onConnect_error_falls_through:
  "ready (fst (onConnect_callback opts c (Some e) has_next)) \<and>
   closing (fst (onConnect_callback opts c (Some e) has_next)) \<and>
   snd (onConnect_callback opts c (Some e) has_next) = (if has_next then Done else NoCallback) \<and>
   written (socket (fst (onConnect_callback opts c (Some e) has_next))) =
     written (socket c) @
     (if writable (socket c) then [payload_of (response_code e 554) (message e) @ CRLF] else []) @
     (if writable (socket (close c)) then [payload_of 220 (greeting opts c) @ CRLF] else []) \<and>
   response_code e 554 = (case responseCode e of None \<Rightarrow> 554 | Some n \<Rightarrow> if n = 0 then 554 else n) \<and>
   writable (socket (close c)) = (writable (socket c) \<and> destroyed (socket c))"
  by (simp add: onConnect_callback_def Let_def send_written close_def socket_end_def
        greeting_def response_code_def send_def socket_write_def)


text \<open>
  A refused connection: it is ready and closing after the 554. With a socket that stays
  writable the greeting follows the 554.
\<close>

theorem onConnect_error_falls_through_witness:
  "\<not> ready (fst (connectionReady (SMTPConnection demo_options ''localhost'' ''c1'' (Some ''10.0.0.1'')) None)) \<and>
   ready (fst (onConnect_callback demo_options
     (fst (connectionReady (SMTPConnection demo_options ''localhost'' ''c1'' (Some ''10.0.0.1'')) None))
     (Some \<lparr>responseCode = None, message = ''Blocked''\<rparr>) False)) \<and>
   closing (fst (onConnect_callback demo_options
     (fst (connectionReady (SMTPConnection demo_options ''localhost'' ''c1'' (Some ''10.0.0.1'')) None))
     (Some \<lparr>responseCode = None, message = ''Blocked''\<rparr>) False)) \<and>
   written (socket (fst (onConnect_callback demo_options
     (fst (connectionReady (SMTPConnection demo_options ''localhost'' ''c1'' (Some ''10.0.0.1'')) None))
     (Some \<lparr>responseCode = None, message = ''Blocked''\<rparr>) False))) = [''554 Blocked'' @ CRLF] \<and>
   written (socket (fst (onConnect_callback demo_options
     ((fst (connectionReady (SMTPConnection demo_options ''localhost'' ''c1'' (Some ''10.0.0.1'')) None))
        \<lparr>socket := \<lparr>writable = True, destroyed = True, ended = False, written = []\<rparr>\<rparr>)
     (Some \<lparr>responseCode = None, message = ''Blocked''\<rparr>) False))) =
     [''554 Blocked'' @ CRLF, ''220 mx.example ESMTP'' @ CRLF]"
proof -
  let ?c = "fst (connectionReady (SMTPConnection demo_options ''localhost'' ''c1'' (Some ''10.0.0.1'')) None)"
  let ?d = "?c\<lparr>socket := \<lparr>writable = True, destroyed = True, ended = False, written = []\<rparr>\<rparr>"
  let ?e = "\<lparr>responseCode = None, message = ''Blocked''\<rparr>"
  have pre: "\<not> ready ?c" "writable (socket ?c)" "\<not> destroyed (socket ?c)" "written (socket ?c) = []"
    "name ?c = ''mx.example''" "name ?d = ''mx.example''" "banner demo_options = None"
    by (simp_all add: connectionReady_def SMTPConnection_def demo_options_def Let_def
          startSession_def truthy_def)
  have p1: "payload_of 554 ''Blocked'' = ''554 Blocked''"
    by (simp add: payload_of_def string_of_nat.simps digit_chars_def)
  have p2: "payload_of 220 ''mx.example ESMTP'' = ''220 mx.example ESMTP''"
    by (simp add: payload_of_def string_of_nat.simps digit_chars_def)
  have a: "ready (fst (onConnect_callback demo_options ?c (Some ?e) False)) \<and>
      closing (fst (onConnect_callback demo_options ?c (Some ?e) False)) \<and>
      written (socket (fst (onConnect_callback demo_options ?c (Some ?e) False))) = [''554 Blocked'' @ CRLF]"
    using onConnect_error_falls_through[of demo_options ?c ?e False] pre p1
    by simp
  have b: "written (socket (fst (onConnect_callback demo_options ?d (Some ?e) False))) =
      [''554 Blocked'' @ CRLF, ''220 mx.example ESMTP'' @ CRLF]"
    using onConnect_error_falls_through[of demo_options ?d ?e False] pre p1 p2
    by (simp add: greeting_def truthy_def)
  from pre(1) a b show ?thesis by simp
qed

subsection \<open>C2: recipients that differ only in case\<close>









subsection \<open>C1: LOGIN in XCLIENT\<close>

lemma xclient_login_absent_session:
  "\<not> truthy v \<Longrightarrow> session (xclient_apply (''LOGIN'', v) c) = session c"
  by (simp add: xclient_apply_def)

lemma xclient_login_present_user:
  "truthy v \<Longrightarrow> session c = Some s \<Longrightarrow>
   session (xclient_apply (''LOGIN'', v) c) = Some (s\<lparr>s_user := Some \<lparr>username = to_str v\<rparr>\<rparr>)"
  by (simp add: xclient_apply_def)

lemma xclient_login_recorded:
  "map_of (xclient (xclient_apply (''LOGIN'', v) c)) ''LOGIN'' = Some v"
proof -
  have "map_of (map_set k v m) k = Some v" for k and m :: "(string \<times> string option) list"
    by (induction m) auto
  then show ?thesis by (simp add: xclient_apply_def Let_def)
qed

lemma demo_xclient_login:
  "xclient_parse [''LOGIN=alice''] [] = Some [(''LOGIN'', Some ''alice'')]"
  "xclient_parse [''LOGIN=[UNAVAILABLE]''] [] = Some [(''LOGIN'', None)]"
  by (simp_all add: shift_def allowedKeys_def char_defs)

lemma demo_xclient_pieces:
  "shift (split_ws (trim ''XCLIENT LOGIN=alice'')) = (''XCLIENT'', [''LOGIN=alice''])"
  "shift (split_ws (trim ''XCLIENT LOGIN=[UNAVAILABLE]'')) = (''XCLIENT'', [''LOGIN=[UNAVAILABLE]''])"
  by (simp_all add: shift_def split_ws_def trim_def is_ws_def)

lemma handler_XCLIENT_applied:
  assumes "\<not> map_has ''ADDR'' (xclient c)" and "useXClient opts"
    and "session c = Some s" and "mailFrom (s_envelope s) = None"
    and "shift (split_ws (trim command)) = (verb, parts)" and "parts \<noteq> []"
    and "xclient_parse parts [] = Some data"
  shows "session (fst (handler_XCLIENT opts c command)) = session (fold xclient_apply data c)"
    and "xclient (fst (handler_XCLIENT opts c command)) = xclient (fold xclient_apply data c)"
    and "snd (handler_XCLIENT opts c command) = Done"
  using assms by (simp_all add: handler_XCLIENT_def Let_def)

text \<open>
  C1 says that a LOGIN whose value is absent clears \<open>session.user\<close>. The code does not:
  the branch for an absent value only writes the log line "User deauthenticated" and
  assigns nothing. Here XCLIENT LOGIN=alice sets the user on a fresh connection, as the
  claim says, and XCLIENT LOGIN=[UNAVAILABLE] after it is answered and recorded in
  \<open>xclient\<close>, but the user is still alice.
\<close>

theorem xclient_login_unavailable_keeps_user:
  "map_option s_user (session demo_connection) = Some None \<and>
   map_option s_user (session (fst (handler_XCLIENT demo_options demo_connection ''XCLIENT LOGIN=alice''))) =
     Some (Some \<lparr>username = ''alice''\<rparr>) \<and>
   snd (handler_XCLIENT demo_options
          (fst (handler_XCLIENT demo_options demo_connection ''XCLIENT LOGIN=alice''))
          ''XCLIENT LOGIN=[UNAVAILABLE]'') = Done \<and>
   xclient (fst (handler_XCLIENT demo_options
          (fst (handler_XCLIENT demo_options demo_connection ''XCLIENT LOGIN=alice''))
          ''XCLIENT LOGIN=[UNAVAILABLE]'')) = [(''LOGIN'', None)] \<and>
   map_option s_user (session (fst (handler_XCLIENT demo_options
          (fst (handler_XCLIENT demo_options demo_connection ''XCLIENT LOGIN=alice''))
          ''XCLIENT LOGIN=[UNAVAILABLE]''))) = Some (Some \<lparr>username = ''alice''\<rparr>)"
proof -
  let ?c1 = "fst (handler_XCLIENT demo_options demo_connection ''XCLIENT LOGIN=alice'')"
  let ?c2 = "fst (handler_XCLIENT demo_options ?c1 ''XCLIENT LOGIN=[UNAVAILABLE]'')"
  have pre: "xclient demo_connection = []" "useXClient demo_options"
    "map_option (mailFrom \<circ> s_envelope) (session demo_connection) = Some None"
    "map_option s_user (session demo_connection) = Some None"
    by (simp_all add: demo_defs)
  then obtain s where s: "session demo_connection = Some s" "mailFrom (s_envelope s) = None"
    by auto
  have c1: "xclient ?c1 = [(''LOGIN'', Some ''alice'')]"
    "session ?c1 = Some (s\<lparr>s_user := Some \<lparr>username = ''alice''\<rparr>\<rparr>)"
    using handler_XCLIENT_applied[OF _ pre(2) s demo_xclient_pieces(1) _ demo_xclient_login(1)] pre(1) s
    by (simp_all add: map_has_def xclient_apply_def truthy_def to_str_def)
  have c2: "xclient ?c2 = [(''LOGIN'', None)]"
    "session ?c2 = Some (s\<lparr>s_user := Some \<lparr>username = ''alice''\<rparr>\<rparr>)"
    "snd (handler_XCLIENT demo_options ?c1 ''XCLIENT LOGIN=[UNAVAILABLE]'') = Done"
    using handler_XCLIENT_applied[OF _ pre(2) c1(2) _ demo_xclient_pieces(2) _ demo_xclient_login(2)] c1 s
    by (simp_all add: map_has_def xclient_apply_def truthy_def)
  from pre(4) c1 c2 show ?thesis by simp
qed

subsection \<open>C7: the empty address in MAIL and in RCPT\<close>

lemmas parse_defs = parseAddressCommand_def shift_def trim_def split_ws_def angle_address_def
  parse_args_def parse_param_def Let_def

lemma parse_MAIL_empty:
  "parseAddressCommand toUnicode ''mail from'' ''MAIL FROM:<>'' = Some \<lparr>address = [], args = None\<rparr>"
  by (simp add: parse_defs char_defs)

lemma parse_RCPT_empty:
  "parseAddressCommand toUnicode ''rcpt to'' ''RCPT TO:<>'' = Some \<lparr>address = [], args = None\<rparr>"
  by (simp add: parse_defs char_defs)

text \<open>
  C7. MAIL FROM:<> parses to the empty address without parameters, and the handler of
  MAIL hands it to \<^verbatim>\<open>onMailFrom\<close> when no sender is set; so does any line that
  parses to an empty address, when the size given with it does not exceed the limit.
  When \<^verbatim>\<open>onMailFrom\<close> accepts, the record becomes \<open>mailFrom\<close> and the answer is 250.
  RCPT TO:<> parses as well, but the handler of RCPT answers 501 "Error: Bad recipient
  address syntax" to it, and to any line that parses to an empty address, in every
  state, and ends there: \<^verbatim>\<open>onRcptTo\<close> is not called.
\<close>

theorem empty_address_asymmetry:
  "parseAddressCommand toUnicode ''mail from'' ''MAIL FROM:<>'' = Some \<lparr>address = [], args = None\<rparr> \<and>
   (session c = Some s \<and> mailFrom (s_envelope s) = None \<longrightarrow>
      handler_MAIL toUnicode number_gt opts c ''MAIL FROM:<>'' =
        (c, Ask_onMailFrom \<lparr>address = [], args = None\<rparr>)) \<and>
   (parseAddressCommand toUnicode ''mail from'' line = Some p \<and> address p = [] \<and>
    session c = Some s \<and> mailFrom (s_envelope s) = None \<and> \<not> size_exceeded number_gt opts p \<longrightarrow>
      handler_MAIL toUnicode number_gt opts c line = (c, Ask_onMailFrom p)) \<and>
   (session c = Some s \<longrightarrow>
      onMailFrom_callback c p None =
        (send 250 ''Accepted''
           (c\<lparr>session := Some (s\<lparr>s_envelope := (s_envelope s)\<lparr>mailFrom := Some p\<rparr>\<rparr>)\<rparr>), Done)) \<and>
   parseAddressCommand toUnicode ''rcpt to'' ''RCPT TO:<>'' = Some \<lparr>address = [], args = None\<rparr> \<and>
   handler_RCPT toUnicode c ''RCPT TO:<>'' =
     (send 501 ''Error: Bad recipient address syntax'' c, Done) \<and>
   (parseAddressCommand toUnicode ''rcpt to'' line = Some p \<and> address p = [] \<longrightarrow>
      handler_RCPT toUnicode c line = (send 501 ''Error: Bad recipient address syntax'' c, Done))"
proof -
  have no_size: "\<not> size_exceeded number_gt opts \<lparr>address = [], args = None\<rparr>"
    by (simp add: size_exceeded_def arg_lookup_def split: option.splits)
  have m1: "session c = Some s \<and> mailFrom (s_envelope s) = None \<longrightarrow>
      handler_MAIL toUnicode number_gt opts c ''MAIL FROM:<>'' =
        (c, Ask_onMailFrom \<lparr>address = [], args = None\<rparr>)"
    using no_size by (simp add: handler_MAIL_def parse_MAIL_empty)
  have m2: "parseAddressCommand toUnicode ''mail from'' line = Some p \<and> address p = [] \<and>
    session c = Some s \<and> mailFrom (s_envelope s) = None \<and> \<not> size_exceeded number_gt opts p \<longrightarrow>
      handler_MAIL toUnicode number_gt opts c line = (c, Ask_onMailFrom p)"
    by (simp add: handler_MAIL_def)
  have m3: "session c = Some s \<longrightarrow>
      onMailFrom_callback c p None =
        (send 250 ''Accepted''
           (c\<lparr>session := Some (s\<lparr>s_envelope := (s_envelope s)\<lparr>mailFrom := Some p\<rparr>\<rparr>)\<rparr>), Done)"
    by (simp add: onMailFrom_callback_def)
  have r1: "handler_RCPT toUnicode c ''RCPT TO:<>'' =
     (send 501 ''Error: Bad recipient address syntax'' c, Done)"
    by (simp add: handler_RCPT_def parse_RCPT_empty)
  have r2: "parseAddressCommand toUnicode ''rcpt to'' line = Some p \<and> address p = [] \<longrightarrow>
      handler_RCPT toUnicode c line = (send 501 ''Error: Bad recipient address syntax'' c, Done)"
    by (simp add: handler_RCPT_def)
  from parse_MAIL_empty parse_RCPT_empty m1 m2 m3 r1 r2 show ?thesis by blast
qed

text \<open>The two lines on a connection without a sender and on one with a sender.\<close>

theorem empty_address_asymmetry_witness:
  "handler_MAIL (\<lambda>d. d) (\<lambda>v n. False) demo_options demo_connection ''MAIL FROM:<>'' =
     (demo_connection, Ask_onMailFrom \<lparr>address = [], args = None\<rparr>) \<and>
   written (socket (fst (onMailFrom_callback demo_connection \<lparr>address = [], args = None\<rparr> None))) =
     [''250 Accepted'' @ CRLF] \<and>
   map_option (mailFrom \<circ> s_envelope)
     (session (fst (onMailFrom_callback demo_connection \<lparr>address = [], args = None\<rparr> None))) =
     Some (Some \<lparr>address = [], args = None\<rparr>) \<and>
   snd (handler_RCPT (\<lambda>d. d) demo_two_rcpts ''RCPT TO:<>'') = Done \<and>
   written (socket (fst (handler_RCPT (\<lambda>d. d) demo_two_rcpts ''RCPT TO:<>''))) =
     [''501 Error: Bad recipient address syntax'' @ CRLF]"
proof -
  let ?p = "\<lparr>address = [], args = None\<rparr> :: address_record"
  obtain s where s: "session demo_connection = Some s" "mailFrom (s_envelope s) = None"
    by (simp add: demo_defs)
  have w: "writable (socket demo_connection)" "written (socket demo_connection) = []"
    "writable (socket demo_two_rcpts)" "written (socket demo_two_rcpts) = []"
    by (simp_all add: demo_two_rcpts_def demo_defs)
  have p250: "payload_of 250 ''Accepted'' = ''250 Accepted''"
    by (simp add: payload_of_def string_of_nat.simps digit_chars_def)
  have p501: "payload_of 501 ''Error: Bad recipient address syntax'' = ''501 Error: Bad recipient address syntax''"
    by (simp add: payload_of_def string_of_nat.simps digit_chars_def)
  note t = empty_address_asymmetry[of "\<lambda>d. d" demo_connection s "\<lambda>v n. False" demo_options "''MAIL FROM:<>''" ?p]
  note u = empty_address_asymmetry[of "\<lambda>d. d" demo_two_rcpts s "\<lambda>v n. False" demo_options "''RCPT TO:<>''" ?p]
  from t s have a: "handler_MAIL (\<lambda>d. d) (\<lambda>v n. False) demo_options demo_connection ''MAIL FROM:<>'' =
     (demo_connection, Ask_onMailFrom ?p)" by blast
  from t s have b: "onMailFrom_callback demo_connection ?p None =
        (send 250 ''Accepted''
           (demo_connection\<lparr>session := Some (s\<lparr>s_envelope := (s_envelope s)\<lparr>mailFrom := Some ?p\<rparr>\<rparr>)\<rparr>), Done)"
    by blast
  from u have c: "handler_RCPT (\<lambda>d. d) demo_two_rcpts ''RCPT TO:<>'' =
     (send 501 ''Error: Bad recipient address syntax'' demo_two_rcpts, Done)" by blast
  from a b c w p250 p501 show ?thesis
    by (simp add: send_written)
qed

subsection \<open>C6: the parser of MAIL FROM and RCPT TO\<close>

lemma split_on_nonempty: "split_on d s \<noteq> []"
  by (induction s) (auto split: list.splits)

lemma split_on_none: "d \<notin> set s \<Longrightarrow> split_on d s = [s]"
  by (induction s) auto

lemma join_Cons_head: "join d ((x # w) # ws) = x # join d (w # ws)"
  by (cases ws) simp_all

lemma join_empty_head: "ws \<noteq> [] \<Longrightarrow> join d ([] # ws) = d @ join d ws"
  by (cases ws) simp_all

lemma join_split_on: "join [d] (split_on d s) = s"
proof (induction s)
  case Nil
  then show ?case by simp
next
  case (Cons x xs)
  obtain w ws where w: "split_on d xs = w # ws"
    using split_on_nonempty[of d xs] by (cases "split_on d xs") auto
  with Cons show ?case
    by (cases "x = d") (simp_all add: join_Cons_head join_empty_head del: join.simps)
qed

lemma split_on_first:
  "split_on d s = takeWhile (\<lambda>ch. ch \<noteq> d) s #
     (if d \<in> set s then split_on d (tl (dropWhile (\<lambda>ch. ch \<noteq> d) s)) else [])"
proof (induction s)
  case Nil
  then show ?case by simp
next
  case (Cons x xs)
  then show ?case by (cases "x = d") (auto split: list.splits)
qed

lemma trim_id: "s \<noteq> [] \<Longrightarrow> \<not> is_ws (hd s) \<Longrightarrow> \<not> is_ws (last s) \<Longrightarrow> trim s = s"
proof -
  assume a: "s \<noteq> []" "\<not> is_ws (hd s)" "\<not> is_ws (last s)"
  then have "dropWhile is_ws s = s" by (cases s) auto
  moreover from a have "dropWhile is_ws (rev s) = rev s"
    by (cases "rev s") (auto simp: last_rev[symmetric] hd_rev)
  ultimately show ?thesis by (simp add: trim_def)
qed

lemma split_ws_from_nonempty: "split_ws_from b s \<noteq> []"
  by (induction s arbitrary: b) (auto split: list.splits)

lemma split_ws_from_token:
  "\<forall>ch \<in> set t. \<not> is_ws ch \<Longrightarrow>
   split_ws_from False (t @ rest) =
     (t @ hd (split_ws_from False rest)) # tl (split_ws_from False rest)"
proof (induction t)
  case Nil
  then show ?case using split_ws_from_nonempty[of False rest] by simp
next
  case (Cons x t)
  then have "split_ws_from False (t @ rest) =
      (t @ hd (split_ws_from False rest)) # tl (split_ws_from False rest)" by simp
  with Cons.prems show ?case by simp
qed

lemma parse_param_eq:
  "parse_param part =
     (toUpperCase (takeWhile (\<lambda>ch. ch \<noteq> CHR ''='') part),
      if CHR ''='' \<notin> set part then ArgTrue
      else if tl (dropWhile (\<lambda>ch. ch \<noteq> CHR ''='') part) = [] then ArgTrue
      else ArgStr (tl (dropWhile (\<lambda>ch. ch \<noteq> CHR ''='') part)))"
proof -
  have j: "join ''='' (split_on (CHR ''='') s) = s" for s
    using join_split_on[of "CHR ''=''" s] by simp
  show ?thesis
    unfolding parse_param_def
    by (subst split_on_first) (simp add: shift_def j)
qed

lemma parse_args_snoc:
  "parse_args (ps @ [part]) =
     Some ((case parse_args ps of None \<Rightarrow> Map.empty | Some m \<Rightarrow> m)
             (fst (parse_param part) \<mapsto> snd (parse_param part)))"
  by (simp add: parse_args_def split: prod.splits)


lemma shift_split_on: "shift (split_on d s) = (hd (split_on d s), tl (split_on d s))"
  using split_on_nonempty[of d s] by (cases "split_on d s") (simp_all add: shift_def)

lemma shift_split_ws: "shift (split_ws s) = (hd (split_ws s), tl (split_ws s))"
  using split_ws_from_nonempty[of False s] by (cases "split_ws s") (simp_all add: shift_def split_ws_def)


lemma angle_token:
  assumes "\<forall>ch \<in> set body. ch \<noteq> CHR ''<'' \<and> ch \<noteq> CHR ''>''"
  shows "angle_address (''<'' @ body @ ''>'')" and "butlast (tl (''<'' @ body @ ''>'')) = body"
proof -
  have form: "tl (''<'' @ body @ ''>'') = body @ [CHR ''>'']" by simp
  show b: "butlast (tl (''<'' @ body @ ''>'')) = body"
    unfolding form by (rule butlast_snoc)
  have "2 \<le> length (''<'' @ body @ ''>'')" by simp
  moreover have "hd (''<'' @ body @ ''>'') = CHR ''<''" by simp
  moreover have "last (''<'' @ body @ ''>'') = CHR ''>''" by simp
  moreover have "list_all (\<lambda>ch. ch \<noteq> CHR ''<'' \<and> ch \<noteq> CHR ''>'') body"
    using assms by (simp add: list_all_iff)
  ultimately show "angle_address (''<'' @ body @ ''>'')"
    unfolding angle_address_def b by blast
qed

lemma tail_tokens: "split_ws_from False '' SIZE=123'' = [[], ''SIZE=123'']"
  by (simp add: is_ws_def)

lemma size_args: "parse_args [''SIZE=123''] = Some [''SIZE'' \<mapsto> ArgStr ''123'']"
  by (simp add: parse_args_def parse_param_def shift_def char_defs)

lemma mail_from_names:
  "toUpperCase (trim ''mail from'') = ''MAIL FROM''" "toUpperCase (trim ''MAIL FROM'') = ''MAIL FROM''"
  by (simp_all add: trim_def char_defs)

lemma mail_from_split:
  "shift (split_on (CHR '':'') (''MAIL FROM:'' @ rest)) = (''MAIL FROM'', split_on (CHR '':'') rest)"
proof -
  have "split_on (CHR '':'') (''MAIL FROM'' @ CHR '':'' # rest) = ''MAIL FROM'' # split_on (CHR '':'') rest"
    by (rule split_on_prefix) simp
  then show ?thesis by (simp add: shift_def)
qed

lemma two_tokens:
  assumes "\<forall>ch \<in> set tok. \<not> is_ws ch"
  shows "shift (split_ws (tok @ '' SIZE=123'')) = (tok, [''SIZE=123''])"
proof -
  have "split_ws_from False (tok @ '' SIZE=123'') =
      (tok @ hd (split_ws_from False '' SIZE=123'')) # tl (split_ws_from False '' SIZE=123'')"
    using assms by (rule split_ws_from_token)
  then have "split_ws (tok @ '' SIZE=123'') = [tok, ''SIZE=123'']"
    unfolding split_ws_def tail_tokens by simp
  then show ?thesis by (simp add: shift_def)
qed

lemma address_split:
  assumes "CHR ''@'' \<notin> set a" and "CHR ''@'' \<notin> set b"
  shows "split_on (CHR ''@'') (a @ ''@'' @ b) = [a, b]"
proof -
  have "split_on (CHR ''@'') (a @ CHR ''@'' # b) = a # split_on (CHR ''@'') b"
    using assms(1) by (rule split_on_prefix)
  moreover have "split_on (CHR ''@'') b = [b]"
    using assms(2) by (rule split_on_none)
  ultimately show ?thesis by simp
qed

lemma parse_stages:
  assumes "shift (split_on (CHR '':'') line) = (first, parts0)"
    and "toUpperCase (trim name0) = toUpperCase (trim first)"
    and "shift (split_ws (trim (join '':'' parts0))) = (tok, params)"
    and "angle_address tok"
    and "split_on (CHR ''@'') (butlast (tl tok)) = [local, domain]"
    and "local \<noteq> []" and "domain \<noteq> []"
  shows "parseAddressCommand toUnicode name0 line =
     Some \<lparr>address = local @ ''@'' @ toUnicode domain, args = parse_args params\<rparr>"
proof -
  from assms(5) have "butlast (tl tok) \<noteq> []" by auto
  with assms show ?thesis
    by (simp add: parseAddressCommand_def Let_def)
qed

lemma parse_address_with_size:
  assumes a: "a \<noteq> []" and b: "b \<noteq> []"
    and chars: "\<forall>ch \<in> set (a @ b). \<not> is_ws ch \<and> ch \<noteq> CHR ''<'' \<and> ch \<noteq> CHR ''>'' \<and> ch \<noteq> CHR ''@''"
    and dom: "toUnicode b = b"
  shows "parseAddressCommand toUnicode ''mail from'' (''MAIL FROM:<'' @ a @ ''@'' @ b @ ''> SIZE=123'') =
     Some \<lparr>address = a @ ''@'' @ b, args = Some [''SIZE'' \<mapsto> ArgStr ''123'']\<rparr>"
proof -
  define body where "body = a @ ''@'' @ b"
  define tok where "tok = ''<'' @ body @ ''>''"
  define rest where "rest = tok @ '' SIZE=123''"
  have line: "''MAIL FROM:<'' @ a @ ''@'' @ b @ ''> SIZE=123'' = ''MAIL FROM:'' @ rest"
    by (simp add: rest_def tok_def body_def)
  have body_chars: "\<forall>ch \<in> set body. ch \<noteq> CHR ''<'' \<and> ch \<noteq> CHR ''>''"
    using chars by (auto simp: body_def)
  have tok_ws: "\<forall>ch \<in> set tok. \<not> is_ws ch"
    using chars by (auto simp: tok_def body_def is_ws_def)
  have ne: "rest \<noteq> []" "hd rest = CHR ''<''" "last rest = CHR ''3''"
    by (simp_all add: rest_def tok_def)
  have s1: "shift (split_on (CHR '':'') (''MAIL FROM:'' @ rest)) = (''MAIL FROM'', split_on (CHR '':'') rest)"
    by (rule mail_from_split)
  have "join '':'' (split_on (CHR '':'') rest) = rest"
    using join_split_on[of "CHR '':''" rest] by simp
  moreover have "trim rest = rest"
    using ne by (intro trim_id) (simp_all add: is_ws_def)
  moreover have "shift (split_ws rest) = (tok, [''SIZE=123''])"
    unfolding rest_def using tok_ws by (rule two_tokens)
  ultimately have s3: "shift (split_ws (trim (join '':'' (split_on (CHR '':'') rest)))) = (tok, [''SIZE=123''])"
    by simp
  have s4: "angle_address tok" and s5: "butlast (tl tok) = body"
    unfolding tok_def using body_chars by (rule angle_token)+
  have "split_on (CHR ''@'') body = [a, b]"
    unfolding body_def using chars by (intro address_split) auto
  then have s6: "split_on (CHR ''@'') (butlast (tl tok)) = [a, b]"
    by (simp only: s5)
  have names: "toUpperCase (trim ''mail from'') = toUpperCase (trim ''MAIL FROM'')"
    by (simp only: mail_from_names)
  have "parseAddressCommand toUnicode ''mail from'' (''MAIL FROM:'' @ rest) =
     Some \<lparr>address = a @ ''@'' @ toUnicode b, args = parse_args [''SIZE=123'']\<rparr>"
    using s1 names s3 s4 s6 a b by (rule parse_stages)
  then show ?thesis
    by (simp only: line dom size_args)
qed

lemma parse_result_args:
  assumes "parseAddressCommand toUnicode name0 line = Some r"
  shows "args r = parse_args (tl (split_ws (trim (join '':'' (tl (split_on (CHR '':'') line))))))"
proof -
  define params where "params = tl (split_ws (trim (join '':'' (tl (split_on (CHR '':'') line)))))"
  define tok where "tok = hd (split_ws (trim (join '':'' (tl (split_on (CHR '':'') line)))))"
  define addr where "addr = (if \<not> angle_address tok then tok else butlast (tl tok))"
  have unfolded: "parseAddressCommand toUnicode name0 line =
     (if toUpperCase (trim name0) \<noteq> toUpperCase (trim (hd (split_on (CHR '':'') line))) then None
      else if addr \<noteq> []
           then (case split_on (CHR ''@'') addr of
                   [local, domain] \<Rightarrow>
                     (if local = [] \<or> domain = [] \<or> \<not> angle_address tok then None
                      else Some \<lparr>address = local @ ''@'' @ toUnicode domain, args = parse_args params\<rparr>)
                 | _ \<Rightarrow> None)
           else if \<not> angle_address tok then None
           else Some \<lparr>address = addr, args = parse_args params\<rparr>)"
    unfolding parseAddressCommand_def Let_def shift_split_on shift_split_ws prod.case
      params_def tok_def addr_def ..
  from assms show ?thesis
    unfolding unfolded params_def [symmetric]
    by (auto split: if_splits list.splits)
qed

text \<open>
  C6. Let \<open>a\<close> and \<open>b\<close> be the two parts of an address as the parser knows one: both
  are non-empty and have no white space (the no-break space counts as white space), no
  angle bracket and no @; they may have letters beyond ASCII. Let \<open>b\<close> be a domain in
  Unicode already, one that \<^verbatim>\<open>punycode.toUnicode\<close> gives back as it is. Then
  the line MAIL FROM:<a@b> SIZE=123 parses, for the verb "mail from", to the address a@b
  with the one parameter SIZE of value "123". In general the parameters of a parsed line
  are the pieces after the address, stored one after the other, a later one over an
  earlier one of the same key; the key of a piece is what stands before its first "=",
  in upper case; the value is what stands after that "=", and it is \<^verbatim>\<open>true\<close> for a
  piece without "=" (and for one that ends with its first "=", whose value would be
  empty).
\<close>

theorem parse_mail_from_with_size:
  "(a \<noteq> [] \<and> b \<noteq> [] \<and>
    (\<forall>ch \<in> set (a @ b). \<not> is_ws ch \<and> ch \<noteq> CHR ''<'' \<and> ch \<noteq> CHR ''>'' \<and> ch \<noteq> CHR ''@'') \<and>
    toUnicode b = b \<longrightarrow>
      parseAddressCommand toUnicode ''mail from'' (''MAIL FROM:<'' @ a @ ''@'' @ b @ ''> SIZE=123'') =
        Some \<lparr>address = a @ ''@'' @ b, args = Some [''SIZE'' \<mapsto> ArgStr ''123'']\<rparr>) \<and>
   (parseAddressCommand toUnicode name0 line = Some r \<longrightarrow>
      args r = parse_args (tl (split_ws (trim (join '':'' (tl (split_on (CHR '':'') line))))))) \<and>
   parse_args [] = None \<and>
   parse_args (ps @ [part]) =
     Some ((case parse_args ps of None \<Rightarrow> Map.empty | Some m \<Rightarrow> m)
             (fst (parse_param part) \<mapsto> snd (parse_param part))) \<and>
   parse_param part =
     (toUpperCase (takeWhile (\<lambda>ch. ch \<noteq> CHR ''='') part),
      if CHR ''='' \<notin> set part then ArgTrue
      else if tl (dropWhile (\<lambda>ch. ch \<noteq> CHR ''='') part) = [] then ArgTrue
      else ArgStr (tl (dropWhile (\<lambda>ch. ch \<noteq> CHR ''='') part)))"
proof -
  have round: "a \<noteq> [] \<and> b \<noteq> [] \<and>
    (\<forall>ch \<in> set (a @ b). \<not> is_ws ch \<and> ch \<noteq> CHR ''<'' \<and> ch \<noteq> CHR ''>'' \<and> ch \<noteq> CHR ''@'') \<and>
    toUnicode b = b \<longrightarrow>
      parseAddressCommand toUnicode ''mail from'' (''MAIL FROM:<'' @ a @ ''@'' @ b @ ''> SIZE=123'') =
        Some \<lparr>address = a @ ''@'' @ b, args = Some [''SIZE'' \<mapsto> ArgStr ''123'']\<rparr>"
    using parse_address_with_size[of a b toUnicode] by blast
  have res: "parseAddressCommand toUnicode name0 line = Some r \<longrightarrow>
      args r = parse_args (tl (split_ws (trim (join '':'' (tl (split_on (CHR '':'') line))))))"
    using parse_result_args[of toUnicode name0 line r] by blast
  have nil: "parse_args [] = None" by (simp add: parse_args_def)
  from round res nil parse_args_snoc[of ps part] parse_param_eq[of part]
  show ?thesis by (intro conjI)
qed

text \<open>
  The line for user@example.com and the line for an address with letters of Latin-1, and
  five parameters: the key with U+00E9 comes out with U+00C9, the one with the sharp s
  with SS.
\<close>

theorem parse_mail_from_with_size_witness:
  "parseAddressCommand (\<lambda>d. d) ''mail from'' ''MAIL FROM:<user@example.com> SIZE=123'' =
     Some \<lparr>address = ''user@example.com'', args = Some [''SIZE'' \<mapsto> ArgStr ''123'']\<rparr> \<and>
   parseAddressCommand (\<lambda>d. d) ''mail from''
     (''MAIL FROM:<ren'' @ [CHR 0xE9] @ ''@ex'' @ [CHR 0xE4] @ ''mple.org> SIZE=123'') =
     Some \<lparr>address = ''ren'' @ [CHR 0xE9] @ ''@ex'' @ [CHR 0xE4] @ ''mple.org'',
           args = Some [''SIZE'' \<mapsto> ArgStr ''123'']\<rparr> \<and>
   parse_param ''body=8bitmime'' = (''BODY'', ArgStr ''8bitmime'') \<and>
   parse_param ''x=y=z'' = (''X'', ArgStr ''y=z'') \<and>
   parse_param ''smtputf8'' = (''SMTPUTF8'', ArgTrue) \<and>
   parse_param (''cl'' @ [CHR 0xE9] @ ''=1'') = (''CL'' @ [CHR 0xC9], ArgStr ''1'') \<and>
   parse_param (''ma'' @ [sharp_s]) = (''MASS'', ArgTrue)"
proof -
  note t = parse_mail_from_with_size[of "''user''" "''example.com''" "\<lambda>d. d"]
  note u = parse_mail_from_with_size[of "''ren'' @ [CHR 0xE9]" "''ex'' @ [CHR 0xE4] @ ''mple.org''" "\<lambda>d. d"]
  have hyp: "''user'' \<noteq> [] \<and> ''example.com'' \<noteq> [] \<and>
    (\<forall>ch \<in> set (''user'' @ ''example.com'').
       \<not> is_ws ch \<and> ch \<noteq> CHR ''<'' \<and> ch \<noteq> CHR ''>'' \<and> ch \<noteq> CHR ''@'') \<and>
    (\<lambda>d. d) ''example.com'' = ''example.com''"
    by (simp add: is_ws_def)
  have hyp2: "''ren'' @ [CHR 0xE9] \<noteq> [] \<and> ''ex'' @ [CHR 0xE4] @ ''mple.org'' \<noteq> [] \<and>
    (\<forall>ch \<in> set ((''ren'' @ [CHR 0xE9]) @ ''ex'' @ [CHR 0xE4] @ ''mple.org'').
       \<not> is_ws ch \<and> ch \<noteq> CHR ''<'' \<and> ch \<noteq> CHR ''>'' \<and> ch \<noteq> CHR ''@'') \<and>
    (\<lambda>d. d) (''ex'' @ [CHR 0xE4] @ ''mple.org'') = ''ex'' @ [CHR 0xE4] @ ''mple.org''"
    by (simp add: is_ws_def)
  have a: "parseAddressCommand (\<lambda>d. d) ''mail from'' ''MAIL FROM:<user@example.com> SIZE=123'' =
     Some \<lparr>address = ''user@example.com'', args = Some [''SIZE'' \<mapsto> ArgStr ''123'']\<rparr>"
    using t[of "''mail from''" "''MAIL FROM:<>''" "\<lparr>address = [], args = None\<rparr>" "[]" "[]"] hyp
    by simp
  have a2: "parseAddressCommand (\<lambda>d. d) ''mail from''
     (''MAIL FROM:<ren'' @ [CHR 0xE9] @ ''@ex'' @ [CHR 0xE4] @ ''mple.org> SIZE=123'') =
     Some \<lparr>address = ''ren'' @ [CHR 0xE9] @ ''@ex'' @ [CHR 0xE4] @ ''mple.org'',
           args = Some [''SIZE'' \<mapsto> ArgStr ''123'']\<rparr>"
    using u[of "''mail from''" "''MAIL FROM:<>''" "\<lparr>address = [], args = None\<rparr>" "[]" "[]"] hyp2
    by simp
  have b: "parse_param ''body=8bitmime'' = (''BODY'', ArgStr ''8bitmime'')"
    using t[of "''mail from''" "''MAIL FROM:<>''" "\<lparr>address = [], args = None\<rparr>" "[]" "''body=8bitmime''"]
    by (simp add: char_defs)
  have c: "parse_param ''x=y=z'' = (''X'', ArgStr ''y=z'')"
    using t[of "''mail from''" "''MAIL FROM:<>''" "\<lparr>address = [], args = None\<rparr>" "[]" "''x=y=z''"]
    by (simp add: char_defs)
  have d: "parse_param ''smtputf8'' = (''SMTPUTF8'', ArgTrue)"
    using t[of "''mail from''" "''MAIL FROM:<>''" "\<lparr>address = [], args = None\<rparr>" "[]" "''smtputf8''"]
    by (simp add: char_defs)
  have e: "parse_param (''cl'' @ [CHR 0xE9] @ ''=1'') = (''CL'' @ [CHR 0xC9], ArgStr ''1'')"
    using t[of "''mail from''" "''MAIL FROM:<>''" "\<lparr>address = [], args = None\<rparr>" "[]" "''cl'' @ [CHR 0xE9] @ ''=1''"]
    by (simp add: char_defs)
  have f: "parse_param (''ma'' @ [sharp_s]) = (''MASS'', ArgTrue)"
    using t[of "''mail from''" "''MAIL FROM:<>''" "\<lparr>address = [], args = None\<rparr>" "[]" "''ma'' @ [sharp_s]"]
    by (simp add: char_defs)
  from a a2 b c d e f show ?thesis by simp
qed

end
